theory Spec2Isabelle
  imports Main "HOL-Library.Multiset" "HOL-Library.Product_Lexorder"
begin

section \<open>Python values used by the game\<close>

text \<open>
  Texts are \<^typ>\<open>string\<close>s holding the UTF-8 bytes of the source file; integers are
  Python's unbounded \<open>int\<close>, hence \<^typ>\<open>int\<close>. An exception is a value of
  \<open>error\<close>. A \<open>dict\<close> keeps its keys in insertion order, which
  \<open>check_game_over\<close> iterates over, so it is an association list with distinct keys.
\<close>

datatype error = IndexError | KeyError string | TypeError | OverflowError

type_synonym 'v dict = "(string \<times> 'v) list"

text \<open>\<open>d.get(k)\<close>: \<open>None\<close> stands for a missing key (\<open>k not in d\<close>).\<close>

fun dict_get :: "'v dict \<Rightarrow> string \<Rightarrow> 'v option" where
  "dict_get [] k = None"
| "dict_get ((k', v) # d) k = (if k' = k then Some v else dict_get d k)"

text \<open>\<open>d[k]\<close>, which raises \<open>KeyError\<close> on a missing key.\<close>

definition getitem :: "'v dict \<Rightarrow> string \<Rightarrow> error + 'v" where
  "getitem d k = (case dict_get d k of None \<Rightarrow> Inl (KeyError k) | Some v \<Rightarrow> Inr v)"

text \<open>\<open>d[k] = v\<close>: an existing key keeps its position, a new key goes last.\<close>

fun dict_set :: "'v dict \<Rightarrow> string \<Rightarrow> 'v \<Rightarrow> 'v dict" where
  "dict_set [] k v = [(k, v)]"
| "dict_set ((k', v') # d) k v =
     (if k' = k then (k, v) # d else (k', v') # dict_set d k v)"

text \<open>
  \<open>xs[i]\<close> on a Python list: indices \<open>0 .. n-1\<close> count from the front, indices
  \<open>-n .. -1\<close> count from the end, anything else raises \<open>IndexError\<close>.
\<close>

definition list_index :: "'a list \<Rightarrow> int \<Rightarrow> error + 'a" where
  "list_index xs i =
     (let n = int (length xs) in
      if 0 \<le> i \<and> i < n then Inr (xs ! nat i)
      else if - n \<le> i \<and> i < 0 then Inr (xs ! nat (n + i))
      else Inl IndexError)"

text \<open>Sequencing of a computation that may raise: the first exception wins.\<close>

definition and_then :: "error + 'a \<Rightarrow> ('a \<Rightarrow> error + 'b) \<Rightarrow> error + 'b" where
  "and_then m f = (case m of Inl e \<Rightarrow> Inl e | Inr x \<Rightarrow> f x)"

section \<open>Nation statistics\<close>

text \<open>
  \<open>self.stats\<close> is a dict from stat name to value. Every place of the source that builds
  it (\<open>__init__\<close>, \<open>start_game\<close>, \<open>load_game\<close>) lists the six keys in the order of
  \<open>stat_names\<close>.
\<close>

type_synonym stats = "int dict"

definition stat_names :: "string list" where
  "stat_names = [''economy'', ''happiness'', ''stability'', ''relations'',
                 ''military_power'', ''environment'']"

definition initial_stats :: stats where
  "initial_stats = [(''economy'', 50), (''happiness'', 50), (''stability'', 50),
                    (''relations'', 50), (''military_power'', 50), (''environment'', 50)]"

text \<open>
  \<open>apply_effects\<close>: for each \<open>(stat, change)\<close> of the option's effects, a stat the game
  knows is set to \<open>max(0, min(100, value + change))\<close>; an unknown key is skipped.
\<close>

fun apply_effects :: "stats \<Rightarrow> int dict \<Rightarrow> stats" where
  "apply_effects st [] = st"
| "apply_effects st ((stat, change) # effects) =
     apply_effects
       (case dict_get st stat of
          None \<Rightarrow> st
        | Some v \<Rightarrow> dict_set st stat (max 0 (min 100 (v + change))))
       effects"

definition causes :: "(string \<times> string) list" where
  "causes = [
     (''economy'',
      [CHR 0xEF, CHR 0xA3, CHR 0xBF, CHR 0xC3, CHR 0xBC, CHR 0xC3, CHR 0xAD, CHR 0xE2, CHR 0x88, CHR 0x8F] @ '' Economic Collapse! Your nation's economy has completely failed, leading to widespread poverty and chaos.''),
     (''happiness'',
      [CHR 0xEF, CHR 0xA3, CHR 0xBF, CHR 0xC3, CHR 0xBC, CHR 0xC3, CHR 0xAE, CHR 0xE2, CHR 0x80, CHR 0xA2] @ '' Revolution! The people have risen against your government in a massive uprising.''),
     (''stability'',
      [CHR 0xE2, CHR 0x80, CHR 0x9A, CHR 0xC3, CHR 0xB6, CHR 0xC3, CHR 0xAE, CHR 0xC3, CHR 0x94, CHR 0xE2, CHR 0x88, CHR 0x8F, CHR 0xC3, CHR 0xA8] @ '' Military Coup! Army generals have seized power and removed you from office.''),
     (''relations'',
      [CHR 0xEF, CHR 0xA3, CHR 0xBF, CHR 0xC3, CHR 0xBC, CHR 0xC3, CHR 0xA5, CHR 0xC3, CHR 0xA7] @ '' International Isolation! Your country has become a pariah state with no allies.''),
     (''military_power'',
      [CHR 0xEF, CHR 0xA3, CHR 0xBF, CHR 0xC3, CHR 0xBC, CHR 0xC3, CHR 0xA8, CHR 0xC2, CHR 0xA5] @ '' Invasion! Enemy forces have conquered your nation due to weak defenses.''),
     (''environment'',
      [CHR 0xE2, CHR 0x80, CHR 0x9A, CHR 0xC3, CHR 0xB2, CHR 0xC2, CHR 0xA2, CHR 0xC3, CHR 0x94, CHR 0xE2, CHR 0x88, CHR 0x8F, CHR 0xC3, CHR 0xA8] @ '' Environmental Catastrophe! The nation has become uninhabitable due to ecological collapse.'')]"

text \<open>
  \<open>check_game_over\<close>: the first stat, in the dict's order, whose value is \<open>\<le> 0\<close> ends
  the game with that stat's message from \<open>causes\<close>; \<open>causes[stat]\<close> raises
  \<open>KeyError\<close> for a key outside the table.
\<close>

fun check_game_over :: "stats \<Rightarrow> error + (bool \<times> string)" where
  "check_game_over [] = Inr (False, [])"
| "check_game_over ((stat, v) # rest) =
     (if v \<le> 0 then and_then (getitem causes stat) (\<lambda>msg. Inr (True, msg))
      else check_game_over rest)"


section \<open>The database\<close>

text \<open>
  \<open>DatabaseManager\<close> keeps three SQLite tables. A table is the list of its rows in rowid
  order, which is the order of insertion under \<open>AUTOINCREMENT\<close>; beside each table stands
  the last rowid it handed out. \<open>CURRENT_TIMESTAMP\<close> is the argument \<open>now\<close> of the
  operations that write.

  The \<open>sqlite3\<close> module binds a Python integer to a statement as a signed 64-bit
  \<open>INTEGER\<close> and raises \<open>OverflowError\<close> for an integer outside that range; the
  statement is then not run. \<open>save_game\<close> and \<open>get_leaderboard\<close> have that branch.
  \<open>save_high_score\<close> binds what \<open>game_over_screen\<close> hands over, the game's own
  counters and stats, as they are.
\<close>

definition fits_int64 :: "int \<Rightarrow> bool" where
  "fits_int64 v = (- (2 ^ 63) \<le> v \<and> v < 2 ^ 63)"

record session_row =
  gs_id :: int
  gs_save_name :: string
  gs_country_name :: string
  gs_current_year :: int
  gs_current_turn :: int
  gs_economy :: int
  gs_happiness :: int
  gs_stability :: int
  gs_relations :: int
  gs_military_power :: int
  gs_environment :: int
  gs_created_at :: string
  gs_updated_at :: string

record score_row =
  hs_id :: int
  hs_player_name :: string
  hs_country_name :: string
  hs_years_survived :: int
  hs_turns_survived :: int
  hs_final_economy :: int
  hs_final_happiness :: int
  hs_final_stability :: int
  hs_final_relations :: int
  hs_cause_of_downfall :: string
  hs_achieved_at :: string

text \<open>
  One decision option, as the seed data and the \<open>options\<close> column hold it. The column is
  the \<open>json.dumps\<close> text of the list and is read back with \<open>json.loads\<close>; on lists of
  dicts of texts and integers the two are inverse, so the column is the list itself.
\<close>

record option_dict =
  opt_text :: string
  opt_effects :: "int dict"
  opt_reason :: string

record default_event =
  category :: string
  title :: string
  description :: string
  options :: "option_dict list"

record event_row =
  ge_id :: int
  ge_category :: string
  ge_title :: string
  ge_description :: string
  ge_options :: "option_dict list"
  ge_difficulty_level :: string
  ge_created_at :: string

record database =
  game_sessions :: "session_row list"
  game_sessions_seq :: int
  high_scores :: "score_row list"
  high_scores_seq :: int
  game_events :: "event_row list"
  game_events_seq :: int

definition empty_database :: database where
  "empty_database =
     \<lparr>game_sessions = [], game_sessions_seq = 0,
      high_scores = [], high_scores_seq = 0,
      game_events = [], game_events_seq = 0\<rparr>"

definition default_events :: "default_event list" where
  "default_events = [
     \<lparr>category = ''economy'',
      title = ''Auto Industry Strike'',
      description = ''A major strike has broken out in the automobile industry. Workers demand higher wages and better working conditions. Production has halted at major plants.'',
      options = [
        \<lparr>opt_text = ''Approve higher wages immediately'',
          opt_effects = [(''economy'', - 10), (''happiness'', 20), (''stability'', 5)],
          opt_reason = ''Higher wages strain the budget but boost worker morale and loyalty. Quick resolution prevents prolonged disruption.''\<rparr>,
        \<lparr>opt_text = ''Reject demands and deploy police'',
          opt_effects = [(''economy'', 5), (''happiness'', - 15), (''stability'', - 10)],
          opt_reason = ''Forceful suppression saves money short-term but creates deep resentment and potential for future unrest.''\<rparr>,
        \<lparr>opt_text = ''Negotiate for partial wage increase'',
          opt_effects = [(''economy'', - 5), (''happiness'', 10), (''stability'', 5)],
          opt_reason = ''Compromise shows leadership while balancing economic concerns. Both sides make concessions.''\<rparr>,
        \<lparr>opt_text = ''Offer alternative benefits package'',
          opt_effects = [(''economy'', - 3), (''happiness'', 8), (''relations'', 3)],
          opt_reason = ''Creative solutions like healthcare or training programs cost less than wages but still address worker concerns.''\<rparr>]\<rparr>,
     \<lparr>category = ''diplomacy'',
      title = ''Border Dispute Escalation'',
      description = ''A neighboring country has moved troops near your eastern border, claiming historical territorial rights. International observers are watching closely.'',
      options = [
        \<lparr>opt_text = ''Deploy military to the border'',
          opt_effects = [(''military_power'', 10), (''relations'', - 15), (''economy'', - 8)],
          opt_reason = ''Military posturing shows strength but escalates tensions and drains resources for deployment and maintenance.''\<rparr>,
        \<lparr>opt_text = ''Request UN mediation'',
          opt_effects = [(''relations'', 8), (''stability'', 5), (''economy'', - 3)],
          opt_reason = ''Diplomatic approach enhances international standing and provides neutral arbitration, though it requires funding.''\<rparr>,
        \<lparr>opt_text = ''Offer territorial compromise'',
          opt_effects = [(''relations'', 15), (''happiness'', - 10), (''stability'', - 5)],
          opt_reason = ''Peaceful resolution improves diplomatic ties but appears weak to citizens who view it as giving up sovereign land.''\<rparr>,
        \<lparr>opt_text = ''Impose targeted economic sanctions'',
          opt_effects = [(''economy'', - 5), (''relations'', - 8), (''stability'', 3)],
          opt_reason = ''Economic pressure shows resolve without military action, but reduces trade and may hurt your own economy.''\<rparr>]\<rparr>,
     \<lparr>category = ''environment'',
      title = ''Industrial Pollution Crisis'',
      description = ''Several major factories have been releasing toxic chemicals into the air and water. Environmental groups are protesting, and public health concerns are rising.'',
      options = [
        \<lparr>opt_text = ''Immediately shut down polluting factories'',
          opt_effects = [(''environment'', 20), (''economy'', - 15), (''happiness'', - 8)],
          opt_reason = ''Decisive environmental action prevents health disasters but causes massive job losses and economic disruption.''\<rparr>,
        \<lparr>opt_text = ''Implement gradual emission standards'',
          opt_effects = [(''environment'', 8), (''economy'', - 5), (''happiness'', 5)],
          opt_reason = ''Balanced approach gives companies time to adapt while showing environmental commitment. Moderate costs for all.''\<rparr>,
        \<lparr>opt_text = ''Ignore environmental concerns'',
          opt_effects = [(''economy'', 5), (''environment'', - 10), (''happiness'', - 12), (''stability'', - 8)],
          opt_reason = ''Prioritizing industry over environment leads to health crises, public outrage, and long-term ecological damage.''\<rparr>,
        \<lparr>opt_text = ''Invest heavily in green technology subsidies'',
          opt_effects = [(''environment'', 15), (''economy'', - 10), (''relations'', 8)],
          opt_reason = ''Forward-thinking investment creates jobs in new sectors and improves international image, but requires significant upfront costs.''\<rparr>]\<rparr>,
     \<lparr>category = ''politics'',
      title = ''Government Corruption Scandal'',
      description = ''Investigative journalists have exposed a major corruption ring involving high-ranking government officials and defense contractors. The media is demanding accountability.'',
      options = [
        \<lparr>opt_text = ''Launch comprehensive investigation'',
          opt_effects = [(''stability'', 15), (''happiness'', 10), (''economy'', - 5)],
          opt_reason = ''Transparent accountability restores public trust and strengthens institutions, though investigations are costly and time-consuming.''\<rparr>,
        \<lparr>opt_text = ''Attempt to suppress the story'',
          opt_effects = [(''stability'', - 15), (''happiness'', - 20), (''economy'', 5)],
          opt_reason = ''Cover-up attempts backfire when exposed, creating deeper scandals and destroying credibility with the public.''\<rparr>,
        \<lparr>opt_text = ''Quietly remove officials without fanfare'',
          opt_effects = [(''stability'', 5), (''happiness'', - 5), (''economy'', 3)],
          opt_reason = ''Minimal response addresses the immediate problem but doesn't satisfy demands for justice and transparency.''\<rparr>,
        \<lparr>opt_text = ''Blame opposition and deflect'',
          opt_effects = [(''stability'', - 8), (''happiness'', - 10), (''relations'', - 5)],
          opt_reason = ''Political deflection appears defensive and dishonest, damaging relationships with both domestic opposition and international partners.''\<rparr>]\<rparr>,
     \<lparr>category = ''military'',
      title = ''Defense Modernization Pressure'',
      description = ''Military leaders warn that neighboring countries are advancing their weapons systems. They request significant budget increases for modernization programs.'',
      options = [
        \<lparr>opt_text = ''Approve major defense spending increase'',
          opt_effects = [(''military_power'', 15), (''economy'', - 12), (''stability'', 8)],
          opt_reason = ''Strong military deters threats and reassures citizens, but diverts funds from civilian programs and increases deficit spending.''\<rparr>,
        \<lparr>opt_text = ''Maintain current defense budget'',
          opt_effects = [(''military_power'', - 5), (''stability'', 3), (''happiness'', 5)],
          opt_reason = ''Fiscal responsibility pleases taxpayers but may leave military outdated, potentially creating security vulnerabilities.''\<rparr>,
        \<lparr>opt_text = ''Reduce defense spending for social programs'',
          opt_effects = [(''economy'', 10), (''military_power'', - 15), (''stability'', - 8)],
          opt_reason = ''Reallocation helps civilian needs but weakens defense capabilities and may alarm military leadership and allies.''\<rparr>,
        \<lparr>opt_text = ''Seek international defense partnerships'',
          opt_effects = [(''military_power'', 8), (''relations'', - 5), (''economy'', 3)],
          opt_reason = ''Shared defense costs reduce expenses but create dependency on allies and may compromise strategic autonomy.''\<rparr>]\<rparr>,
     \<lparr>category = ''economy'',
      title = ''Economic Recession Warning'',
      description = ''Economic indicators show the country is entering a recession. Unemployment is rising, businesses are closing, and consumer confidence is at a five-year low.'',
      options = [
        \<lparr>opt_text = ''Launch massive stimulus package'',
          opt_effects = [(''economy'', 15), (''happiness'', 10), (''stability'', 5)],
          opt_reason = ''Government spending jumpstarts economic activity and provides immediate relief, but increases national debt significantly.''\<rparr>,
        \<lparr>opt_text = ''Implement austerity measures'',
          opt_effects = [(''economy'', - 5), (''happiness'', - 10), (''stability'', - 5)],
          opt_reason = ''Fiscal restraint may worsen short-term conditions but aims for long-term stability by reducing government debt burden.''\<rparr>,
        \<lparr>opt_text = ''Increase taxes on wealthy individuals'',
          opt_effects = [(''economy'', 8), (''happiness'', - 8), (''stability'', - 3)],
          opt_reason = ''Revenue from high earners funds programs but may discourage investment and create capital flight among the wealthy.''\<rparr>,
        \<lparr>opt_text = ''Attract foreign investment with incentives'',
          opt_effects = [(''economy'', 12), (''relations'', - 3), (''stability'', 3)],
          opt_reason = ''Foreign capital creates jobs and growth but may create dependency and concerns about national economic sovereignty.''\<rparr>]\<rparr>,
     \<lparr>category = ''social'',
      title = ''Healthcare System Crisis'',
      description = ''Hospitals are overwhelmed, medical staff are burned out, and critical supplies are running short. Citizens are demanding immediate healthcare system reforms.'',
      options = [
        \<lparr>opt_text = ''Massively increase healthcare funding'',
          opt_effects = [(''happiness'', 15), (''economy'', - 10), (''stability'', 8)],
          opt_reason = ''Investment in healthcare saves lives and improves quality of life but requires significant budget reallocation or new taxes.''\<rparr>,
        \<lparr>opt_text = ''Privatize significant portions of healthcare'',
          opt_effects = [(''economy'', 8), (''happiness'', - 12), (''stability'', - 5)],
          opt_reason = ''Market solutions may improve efficiency and reduce government costs but limit access for lower-income citizens.''\<rparr>,
        \<lparr>opt_text = ''Implement gradual healthcare reforms'',
          opt_effects = [(''happiness'', 8), (''economy'', - 5), (''stability'', 3)],
          opt_reason = ''Step-by-step improvements balance budget concerns with healthcare needs but may not address urgent crisis fast enough.''\<rparr>,
        \<lparr>opt_text = ''Import healthcare workers and expand medical training'',
          opt_effects = [(''happiness'', 10), (''economy'', - 8), (''relations'', 5)],
          opt_reason = ''Expanding healthcare capacity through immigration and education provides long-term solutions but requires time and investment.''\<rparr>]\<rparr>]"

text \<open>One \<open>INSERT INTO game_events (category, title, description, options)\<close>.\<close>

definition insert_event :: "string \<Rightarrow> default_event \<Rightarrow> database \<Rightarrow> database" where
  "insert_event now event db =
     db\<lparr>game_events := game_events db @
           [\<lparr>ge_id = game_events_seq db + 1,
             ge_category = category event,
             ge_title = title event,
             ge_description = description event,
             ge_options = options event,
             ge_difficulty_level = ''normal'',
             ge_created_at = now\<rparr>],
        game_events_seq := game_events_seq db + 1\<rparr>"

text \<open>
  \<open>populate_default_events\<close>: returns at once when \<open>SELECT COUNT(*)\<close> is positive,
  otherwise inserts the default events one after the other.
\<close>

definition populate_default_events :: "string \<Rightarrow> database \<Rightarrow> database" where
  "populate_default_events now db =
     (if int (length (game_events db)) > 0 then db
      else fold (insert_event now) default_events db)"

text \<open>
  \<open>init_database\<close>: the three \<open>CREATE TABLE IF NOT EXISTS\<close> leave existing tables as
  they are (a new database file is \<open>empty_database\<close>); then the events are seeded.
\<close>

definition init_database :: "string \<Rightarrow> database \<Rightarrow> database" where
  "init_database now db = populate_default_events now db"

text \<open>The \<open>game_state\<close> dict that \<open>save_game\<close> takes and \<open>load_game\<close> returns.\<close>

record game_state =
  state_country_name :: string
  state_current_year :: int
  state_current_turn :: int
  state_stats :: stats

text \<open>
  \<open>save_game\<close>: the six \<open>game_state["stats"][...]\<close> lookups come first and raise
  \<open>KeyError\<close> on a missing stat. Binding the eight integers raises
  \<open>OverflowError\<close> when one of them does not fit 64 bits, and nothing is stored.
  \<open>INSERT OR REPLACE\<close> then deletes the row that holds the same \<open>save_name\<close> (the
  column is \<open>UNIQUE\<close>) and inserts the new row under a new rowid, \<open>created_at\<close> and
  \<open>updated_at\<close> both being the time of the call.
\<close>

definition save_game :: "string \<Rightarrow> database \<Rightarrow> string \<Rightarrow> game_state \<Rightarrow> error + database" where
  "save_game now db save_name game_state =
     and_then (getitem (state_stats game_state) ''economy'') (\<lambda>economy.
     and_then (getitem (state_stats game_state) ''happiness'') (\<lambda>happiness.
     and_then (getitem (state_stats game_state) ''stability'') (\<lambda>stability.
     and_then (getitem (state_stats game_state) ''relations'') (\<lambda>relations.
     and_then (getitem (state_stats game_state) ''military_power'') (\<lambda>military_power.
     and_then (getitem (state_stats game_state) ''environment'') (\<lambda>environment.
       if list_all fits_int64
            [state_current_year game_state, state_current_turn game_state,
             economy, happiness, stability, relations, military_power, environment]
       then
         Inr (db\<lparr>game_sessions :=
                   filter (\<lambda>row. gs_save_name row \<noteq> save_name) (game_sessions db) @
                   [\<lparr>gs_id = game_sessions_seq db + 1,
                     gs_save_name = save_name,
                     gs_country_name = state_country_name game_state,
                     gs_current_year = state_current_year game_state,
                     gs_current_turn = state_current_turn game_state,
                     gs_economy = economy,
                     gs_happiness = happiness,
                     gs_stability = stability,
                     gs_relations = relations,
                     gs_military_power = military_power,
                     gs_environment = environment,
                     gs_created_at = now,
                     gs_updated_at = now\<rparr>],
                 game_sessions_seq := game_sessions_seq db + 1\<rparr>)
       else Inl OverflowError))))))"

text \<open>
  \<open>load_game\<close>: the first row with the given \<open>save_name\<close>, turned into a
  \<open>game_state\<close>; \<open>None\<close> when there is no such row.
\<close>

definition load_game :: "database \<Rightarrow> string \<Rightarrow> game_state option" where
  "load_game db save_name =
     (case find (\<lambda>row. gs_save_name row = save_name) (game_sessions db) of
        None \<Rightarrow> None
      | Some row \<Rightarrow>
          Some \<lparr>state_country_name = gs_country_name row,
                state_current_year = gs_current_year row,
                state_current_turn = gs_current_turn row,
                state_stats =
                  [(''economy'', gs_economy row),
                   (''happiness'', gs_happiness row),
                   (''stability'', gs_stability row),
                   (''relations'', gs_relations row),
                   (''military_power'', gs_military_power row),
                   (''environment'', gs_environment row)]\<rparr>)"

text \<open>The \<open>score_data\<close> dict that \<open>game_over_screen\<close> hands to \<open>save_high_score\<close>.\<close>

record score_data =
  sd_player_name :: string
  sd_country_name :: string
  sd_years_survived :: int
  sd_turns_survived :: int
  sd_final_stats :: stats
  sd_cause_of_downfall :: string

text \<open>
  \<open>save_high_score\<close>: one \<open>INSERT INTO high_scores\<close> with the columns the statement
  names; \<open>achieved_at\<close> takes its default, the time of the call.
\<close>

definition save_high_score :: "string \<Rightarrow> database \<Rightarrow> score_data \<Rightarrow> error + database" where
  "save_high_score now db score_data =
     and_then (getitem (sd_final_stats score_data) ''economy'') (\<lambda>economy.
     and_then (getitem (sd_final_stats score_data) ''happiness'') (\<lambda>happiness.
     and_then (getitem (sd_final_stats score_data) ''stability'') (\<lambda>stability.
     and_then (getitem (sd_final_stats score_data) ''relations'') (\<lambda>relations.
       Inr (db\<lparr>high_scores := high_scores db @
                 [\<lparr>hs_id = high_scores_seq db + 1,
                   hs_player_name = sd_player_name score_data,
                   hs_country_name = sd_country_name score_data,
                   hs_years_survived = sd_years_survived score_data,
                   hs_turns_survived = sd_turns_survived score_data,
                   hs_final_economy = economy,
                   hs_final_happiness = happiness,
                   hs_final_stability = stability,
                   hs_final_relations = relations,
                   hs_cause_of_downfall = sd_cause_of_downfall score_data,
                   hs_achieved_at = now\<rparr>],
               high_scores_seq := high_scores_seq db + 1\<rparr>)))))"






text \<open>What \<open>get_random_event\<close> returns: a dict with three keys.\<close>

record event =
  ev_title :: string
  ev_description :: string
  ev_options :: "option_dict list"

text \<open>
  \<open>get_random_event\<close>: \<open>ORDER BY RANDOM() LIMIT 1\<close> picks one row, any of them; the
  draw is the argument \<open>r\<close>. \<open>None\<close> when the table is empty.
\<close>

definition get_random_event :: "database \<Rightarrow> nat \<Rightarrow> event option" where
  "get_random_event db r =
     (if game_events db = [] then None
      else (let row = game_events db ! (r mod length (game_events db)) in
            Some \<lparr>ev_title = ge_title row,
                  ev_description = ge_description row,
                  ev_options = ge_options row\<rparr>))"


section \<open>The game\<close>

text \<open>
  The fields of \<open>NationCraftGUI\<close> that carry the game; widgets and dialogs are left
  out. A method that changes the object returns the changed object.
\<close>

record gui =
  db :: database
  stats :: stats
  current_year :: int
  current_turn :: int
  country_name :: string
  player_name :: string
  current_event :: "event option"

text \<open>\<open>__init__\<close>, on the database found at \<open>db_path\<close>.\<close>

definition init_gui :: "string \<Rightarrow> database \<Rightarrow> gui" where
  "init_gui now db0 =
     \<lparr>db = init_database now db0,
      stats = initial_stats,
      current_year = 2024,
      current_turn = 0,
      country_name = [],
      player_name = [],
      current_event = None\<rparr>"

text \<open>
  \<open>load_next_event\<close> stores the drawn event, or \<open>None\<close> (and shows an error) when
  there is none. \<open>setup_game_interface\<close> builds the widgets and loads the first event.
\<close>

definition load_next_event :: "gui \<Rightarrow> nat \<Rightarrow> gui" where
  "load_next_event g r = g\<lparr>current_event := get_random_event (db g) r\<rparr>"

definition setup_game_interface :: "gui \<Rightarrow> nat \<Rightarrow> gui" where
  "setup_game_interface g r = load_next_event g r"

text \<open>
  \<open>start_game\<close> (in \<open>new_game_setup\<close>). The two texts are the entries after
  \<open>strip()\<close>; an empty one is replaced by its default.
\<close>

definition start_game :: "gui \<Rightarrow> string \<Rightarrow> string \<Rightarrow> nat \<Rightarrow> gui" where
  "start_game g player_entry country_entry r =
     setup_game_interface
       (g\<lparr>player_name := (if player_entry = [] then ''President'' else player_entry),
          country_name := (if country_entry = [] then ''United Republic'' else country_entry),
          stats := initial_stats,
          current_year := 2024,
          current_turn := 0\<rparr>) r"

text \<open>
  \<open>game_over_screen\<close> builds \<open>score_data\<close> and saves it; an exception of
  \<open>save_high_score\<close> is caught and shown, the database staying as it was.
\<close>

definition game_over_screen :: "gui \<Rightarrow> string \<Rightarrow> string \<Rightarrow> gui" where
  "game_over_screen g now cause =
     (let score_data =
        \<lparr>sd_player_name = player_name g,
         sd_country_name = country_name g,
         sd_years_survived = current_year g - 2024,
         sd_turns_survived = current_turn g,
         sd_final_stats = stats g,
         sd_cause_of_downfall = cause\<rparr>
      in case save_high_score now (db g) score_data of
           Inr db' \<Rightarrow> g\<lparr>db := db'\<rparr>
         | Inl e \<Rightarrow> g)"

text \<open>
  \<open>make_decision\<close>. The result pairs the object as the call leaves it with either the
  exception that ended the call or the \<open>game_over\<close> flag. Subscripting a
  \<open>current_event\<close> that is \<open>None\<close> raises \<open>TypeError\<close>; the option is looked up
  before anything is changed. \<open>show_decision_impact\<close>, \<open>update_stats_display\<close> and
  \<open>update_year_display\<close> only draw. When the game is not over the method schedules
  \<open>load_next_event\<close>, which runs later as a call of its own.
\<close>

definition make_decision :: "gui \<Rightarrow> string \<Rightarrow> int \<Rightarrow> (error + bool) \<times> gui" where
  "make_decision g now choice_index =
     (case current_event g of
        None \<Rightarrow> (Inl TypeError, g)
      | Some ev \<Rightarrow>
          (case list_index (ev_options ev) choice_index of
             Inl e \<Rightarrow> (Inl e, g)
           | Inr chosen_option \<Rightarrow>
               (let g1 = g\<lparr>stats := apply_effects (stats g) (opt_effects chosen_option)\<rparr>;
                    g2 = g1\<lparr>current_turn := current_turn g1 + 1\<rparr>;
                    g3 = (if current_turn g2 mod 4 = 0
                          then g2\<lparr>current_year := current_year g2 + 1\<rparr> else g2)
                in case check_game_over (stats g3) of
                     Inl e \<Rightarrow> (Inl e, g3)
                   | Inr (game_over, cause) \<Rightarrow>
                       if game_over then (Inr True, game_over_screen g3 now cause)
                       else (Inr False, g3))))"

text \<open>
  \<open>save_game\<close> (in \<open>save_game_dialog\<close>): \<open>save_name\<close> is the entry after
  \<open>strip()\<close>; an empty name is refused; an exception of the database is caught and
  shown. \<open>load_selected_game\<close> takes over the loaded session, the player's name
  staying as it is, and builds the game interface.
\<close>

definition save_game_dialog :: "gui \<Rightarrow> string \<Rightarrow> string \<Rightarrow> gui" where
  "save_game_dialog g now save_name =
     (if save_name = [] then g
      else (let game_state =
              \<lparr>state_country_name = country_name g,
               state_current_year = current_year g,
               state_current_turn = current_turn g,
               state_stats = stats g\<rparr>
            in case save_game now (db g) save_name game_state of
                 Inr db' \<Rightarrow> g\<lparr>db := db'\<rparr>
               | Inl e \<Rightarrow> g))"

definition load_selected_game :: "gui \<Rightarrow> string \<Rightarrow> nat \<Rightarrow> gui" where
  "load_selected_game g save_name r =
     (case load_game (db g) save_name of
        Some game_state \<Rightarrow>
          setup_game_interface
            (g\<lparr>country_name := state_country_name game_state,
               current_year := state_current_year game_state,
               current_turn := state_current_turn game_state,
               stats := state_stats game_state\<rparr>) r
      | None \<Rightarrow> g)"

text \<open>
  What the player can do, one callback after the other; an exception that leaves a
  callback is reported by the toolkit and the object stays as the callback left it.
\<close>

datatype action =
    New_Game string string nat
  | Decide string int
  | Next_Event nat
  | Save string string
  | Load string nat

fun perform :: "gui \<Rightarrow> action \<Rightarrow> gui" where
  "perform g (New_Game player_entry country_entry r) = start_game g player_entry country_entry r"
| "perform g (Decide now choice_index) = snd (make_decision g now choice_index)"
| "perform g (Next_Event r) = load_next_event g r"
| "perform g (Save now save_name) = save_game_dialog g now save_name"
| "perform g (Load save_name r) = load_selected_game g save_name r"

definition play :: "gui \<Rightarrow> action list \<Rightarrow> gui" where
  "play g actions = fold (\<lambda>a g. perform g a) actions g"

text \<open>
  A run of decisions that does not stop at the end of the game: each step is a call of
  \<open>make_decision\<close> and, when the game goes on, the scheduled \<open>load_next_event\<close>. The
  run is \<open>None\<close> when a call raises.
\<close>

fun decisions :: "gui \<Rightarrow> (string \<times> int \<times> nat) list \<Rightarrow> gui option" where
  "decisions g [] = Some g"
| "decisions g ((now, choice_index, r) # rest) =
     (case make_decision g now choice_index of
        (Inl e, g') \<Rightarrow> None
      | (Inr game_over, g') \<Rightarrow>
          decisions (if game_over then g' else load_next_event g' r) rest)"

section \<open>Well-formed data\<close>

text \<open>
  A stat vector: the six stats in their order, each within \<open>0..100\<close>.
\<close>

definition stat_vector :: "stats \<Rightarrow> bool" where
  "stat_vector st =
     (map fst st = stat_names \<and> list_all (\<lambda>v. 0 \<le> v \<and> v \<le> 100) (map snd st))"


text \<open>
  A stored session whose six stat columns are within \<open>0..100\<close>, and a game whose
  stats are a stat vector and whose stored sessions are all of that kind.
\<close>

definition session_row_ok :: "session_row \<Rightarrow> bool" where
  "session_row_ok row =
     list_all (\<lambda>v. 0 \<le> v \<and> v \<le> 100)
       [gs_economy row, gs_happiness row, gs_stability row,
        gs_relations row, gs_military_power row, gs_environment row]"

definition game_ok :: "gui \<Rightarrow> bool" where
  "game_ok g = (stat_vector (stats g) \<and> list_all session_row_ok (game_sessions (db g)))"


text \<open>
  A session whose integers SQLite can hold.
\<close>

definition session_fits :: "game_state \<Rightarrow> bool" where
  "session_fits game_state =
     (fits_int64 (state_current_year game_state) \<and>
      fits_int64 (state_current_turn game_state) \<and>
      list_all fits_int64 (map snd (state_stats game_state)))"

text \<open>
  The rowids of the score table as \<open>AUTOINCREMENT\<close> hands them out: increasing along
  the table and never beyond the counter.
\<close>

definition scores_wf :: "database \<Rightarrow> bool" where
  "scores_wf d =
     (sorted_wrt (<) (map hs_id (high_scores d)) \<and>
      list_all (\<lambda>row. hs_id row \<le> high_scores_seq d) (high_scores d))"

text \<open>Five recorded outcomes, two of them equal in years and turns.\<close>

definition five_scores :: database where
  "five_scores =
     empty_database
       \<lparr>high_scores :=
          [\<lparr>hs_id = 1, hs_player_name = ''Ada'', hs_country_name = ''Utopia'',
            hs_years_survived = 2, hs_turns_survived = 9,
            hs_final_economy = 0, hs_final_happiness = 35, hs_final_stability = 60,
            hs_final_relations = 50, hs_cause_of_downfall = ''Economic Collapse'',
            hs_achieved_at = ''2024-06-01 10:00:00''\<rparr>,
           \<lparr>hs_id = 2, hs_player_name = ''Bob'', hs_country_name = ''Freedonia'',
            hs_years_survived = 3, hs_turns_survived = 12,
            hs_final_economy = 40, hs_final_happiness = 0, hs_final_stability = 20,
            hs_final_relations = 50, hs_cause_of_downfall = ''Revolution'',
            hs_achieved_at = ''2024-06-01 11:00:00''\<rparr>,
           \<lparr>hs_id = 3, hs_player_name = ''Cyd'', hs_country_name = ''Ruritania'',
            hs_years_survived = 2, hs_turns_survived = 9,
            hs_final_economy = 70, hs_final_happiness = 15, hs_final_stability = 0,
            hs_final_relations = 45, hs_cause_of_downfall = ''Military Coup'',
            hs_achieved_at = ''2024-06-01 12:00:00''\<rparr>,
           \<lparr>hs_id = 4, hs_player_name = ''Dee'', hs_country_name = ''Genovia'',
            hs_years_survived = 3, hs_turns_survived = 14,
            hs_final_economy = 25, hs_final_happiness = 30, hs_final_stability = 10,
            hs_final_relations = 0, hs_cause_of_downfall = ''International Isolation'',
            hs_achieved_at = ''2024-06-01 13:00:00''\<rparr>,
           \<lparr>hs_id = 5, hs_player_name = ''Eve'', hs_country_name = ''Zubrowka'',
            hs_years_survived = 0, hs_turns_survived = 3,
            hs_final_economy = 0, hs_final_happiness = 50, hs_final_stability = 50,
            hs_final_relations = 50, hs_cause_of_downfall = ''Economic Collapse'',
            hs_achieved_at = ''2024-06-01 14:00:00''\<rparr>],
        high_scores_seq := 5\<rparr>"

text \<open>A database that holds one saved session, under the name beta.\<close>

definition beta_saved :: database where
  "beta_saved =
     empty_database
       \<lparr>game_sessions :=
          [\<lparr>gs_id = 1, gs_save_name = ''beta'', gs_country_name = ''Freedonia'',
            gs_current_year = 2026, gs_current_turn = 9,
            gs_economy = 20, gs_happiness = 65, gs_stability = 70,
            gs_relations = 35, gs_military_power = 55, gs_environment = 80,
            gs_created_at = ''2024-01-01 00:00:30'',
            gs_updated_at = ''2024-01-01 00:00:30''\<rparr>],
        game_sessions_seq := 1\<rparr>"

section \<open>Properties of the statistics\<close>

lemma stat_vector_shape:
  assumes "map fst st = stat_names"
  shows "\<exists>e h s r m v. st = [(''economy'', e), (''happiness'', h), (''stability'', s),
            (''relations'', r), (''military_power'', m), (''environment'', v)]"
  using assms unfolding stat_names_def
  by (auto simp: map_eq_Cons_conv)

lemma getitem_causes:
  "k \<in> set stat_names \<Longrightarrow> \<exists>msg. getitem causes k = Inr msg"
  unfolding stat_names_def getitem_def causes_def by auto

lemma check_game_over_positive:
  "list_all (\<lambda>v. 0 < v) (map snd st) \<Longrightarrow> check_game_over st = Inr (False, [])"
  by (induction st) auto

lemma check_game_over_total:
  "set (map fst st) \<subseteq> set stat_names \<Longrightarrow> list_all (\<lambda>v. 0 \<le> v) (map snd st)
   \<Longrightarrow> \<exists>msg. check_game_over st = Inr (0 \<in> set (map snd st), msg)"
proof (induction st)
  case Nil
  then show ?case by simp
next
  case (Cons p st)
  obtain k v where p: "p = (k, v)" by (cases p)
  show ?case
  proof (cases "v = 0")
    case True
    from Cons.prems p have "k \<in> set stat_names" by simp
    then obtain msg where "getitem causes k = Inr msg" using getitem_causes by blast
    with True p show ?thesis by (simp add: and_then_def)
  next
    case False
    with Cons.prems p have "0 < v" by simp
    moreover from Cons have "\<exists>msg. check_game_over st = Inr (0 \<in> set (map snd st), msg)" by simp
    ultimately show ?thesis using p False by auto
  qed
qed


lemma dict_set_keys:
  "dict_get st k = Some v \<Longrightarrow> map fst (dict_set st k v') = map fst st"
  by (induction st) (auto split: if_splits)

lemma dict_set_values:
  "list_all P (map snd st) \<Longrightarrow> P v' \<Longrightarrow> list_all P (map snd (dict_set st k v'))"
  by (induction st) auto

lemma apply_effects_keys: "map fst (apply_effects st effects) = map fst st"
  by (induction st effects rule: apply_effects.induct)
     (auto simp: dict_set_keys split: option.splits)

lemma apply_effects_range:
  "list_all (\<lambda>v. 0 \<le> v \<and> v \<le> 100) (map snd st) \<Longrightarrow>
   list_all (\<lambda>v. 0 \<le> v \<and> v \<le> 100) (map snd (apply_effects st effects))"
proof (induction st effects rule: apply_effects.induct)
  case (1 st)
  then show ?case by simp
next
  case (2 st stat change effects)
  show ?case
  proof (cases "dict_get st stat")
    case None
    with 2 show ?thesis by simp
  next
    case (Some v)
    have "list_all (\<lambda>v. 0 \<le> v \<and> v \<le> 100)
            (map snd (dict_set st stat (max 0 (min 100 (v + change)))))"
      using "2.prems" by (intro dict_set_values) auto
    with 2 Some show ?thesis by simp
  qed
qed

lemma apply_effects_stat_vector:
  "stat_vector st \<Longrightarrow> stat_vector (apply_effects st effects)"
  unfolding stat_vector_def by (simp add: apply_effects_keys apply_effects_range)

lemma causes_injective:
  "dict_get causes k = Some msg \<Longrightarrow> dict_get causes k' = Some msg \<Longrightarrow> k' = k"
  by (auto simp: causes_def split: if_splits)

lemma check_game_over_find:
  "check_game_over st =
     (case find (\<lambda>(stat, v). v \<le> 0) st of
        None \<Rightarrow> Inr (False, [])
      | Some (stat, v) \<Rightarrow> and_then (getitem causes stat) (\<lambda>msg. Inr (True, msg)))"
  by (induction st) auto

lemma first_zero_find:
  fixes st :: stats
  shows "distinct (map fst st) \<Longrightarrow> list_all (\<lambda>v. 0 \<le> v) (map snd st) \<Longrightarrow>
   find (\<lambda>name. dict_get st name = Some 0) (map fst st) =
     map_option fst (find (\<lambda>(stat, v). v \<le> 0) st)"
proof (induction st)
  case Nil
  then show ?case by simp
next
  case (Cons p st)
  obtain k v where p: "p = (k, v)" by (cases p)
  have rest: "find (\<lambda>name. dict_get (p # st) name = Some 0) (map fst st) =
              find (\<lambda>name. dict_get st name = Some 0) (map fst st)"
    using Cons.prems p by (intro find_cong) auto
  show ?case
  proof (cases "v = 0")
    case True
    with p show ?thesis by simp
  next
    case False
    with Cons.prems p have "0 < v" by simp
    with Cons p rest show ?thesis by simp
  qed
qed

section \<open>Properties of the database\<close>

subsection \<open>Seeding the events\<close>

lemma insert_events_sessions:
  "game_sessions (fold (insert_event now) events d) = game_sessions d"
  by (induction events arbitrary: d) (auto simp: insert_event_def)

lemma init_database_sessions:
  "game_sessions (init_database now d) = game_sessions d"
  by (simp add: init_database_def populate_default_events_def insert_events_sessions)

lemma insert_events_scores:
  "high_scores (fold (insert_event now) events d) = high_scores d \<and>
   high_scores_seq (fold (insert_event now) events d) = high_scores_seq d"
  by (induction events arbitrary: d) (auto simp: insert_event_def)

lemma insert_events_length:
  "length (game_events (fold (insert_event now) events d)) =
     length (game_events d) + length events"
  by (induction events arbitrary: d) (auto simp: insert_event_def)

lemma insert_event_row:
  "\<exists>row. game_events (insert_event now event d) = game_events d @ [row] \<and>
      ge_title row = title event \<and> ge_description row = description event \<and>
      ge_options row = options event"
  by (simp add: insert_event_def)

lemma insert_events_rows:
  "\<exists>rows. game_events (fold (insert_event now) events d) = game_events d @ rows \<and>
      map ge_title rows = map title events \<and>
      map ge_description rows = map description events \<and>
      map ge_options rows = map options events"
proof (induction events arbitrary: d)
  case Nil
  then show ?case by simp
next
  case (Cons event events)
  from insert_event_row [of now event d] obtain row where row:
    "game_events (insert_event now event d) = game_events d @ [row]"
    "ge_title row = title event" "ge_description row = description event"
    "ge_options row = options event"
    by blast
  from Cons [of "insert_event now event d"] obtain rows where
    "game_events (fold (insert_event now) events (insert_event now event d)) =
       game_events (insert_event now event d) @ rows"
    "map ge_title rows = map title events"
    "map ge_description rows = map description events"
    "map ge_options rows = map options events"
    by blast
  with row show ?case
    by (intro exI [of _ "row # rows"]) simp
qed

lemma insert_event_fields:
  "game_events (insert_event now event d) =
     game_events d @
       [\<lparr>ge_id = game_events_seq d + 1, ge_category = category event,
         ge_title = title event, ge_description = description event,
         ge_options = options event, ge_difficulty_level = ''normal'',
         ge_created_at = now\<rparr>]"
  "game_events_seq (insert_event now event d) = game_events_seq d + 1"
  "(insert_event now event d)\<lparr>game_events := rows, game_events_seq := n\<rparr> =
     d\<lparr>game_events := rows, game_events_seq := n\<rparr>"
  by (simp_all add: insert_event_def)

lemma insert_events_table:
  "fold (insert_event now) events d =
     d\<lparr>game_events := game_events d @
          map (\<lambda>(i, event).
                 \<lparr>ge_id = game_events_seq d + 1 + int i,
                  ge_category = category event,
                  ge_title = title event,
                  ge_description = description event,
                  ge_options = options event,
                  ge_difficulty_level = ''normal'',
                  ge_created_at = now\<rparr>)
              (enumerate 0 events),
        game_events_seq := game_events_seq d + int (length events)\<rparr>"
proof (induction events arbitrary: d)
  case Nil
  then show ?case by simp
next
  case (Cons event events)
  have "fold (insert_event now) (event # events) d =
        fold (insert_event now) events (insert_event now event d)"
    by simp
  also note Cons [of "insert_event now event d"]
  finally show ?case
    by (simp add: insert_event_fields enumerate_Suc_eq [of 0] case_prod_unfold comp_def
          add.assoc)
qed

lemma default_events_length: "length default_events = 7"
  by (simp add: default_events_def)

lemma populate_nonempty:
  "game_events d \<noteq> [] \<Longrightarrow> populate_default_events now d = d"
  by (simp add: populate_default_events_def)

lemma populate_empty_length:
  "game_events d = [] \<Longrightarrow> length (game_events (populate_default_events now d)) = 7"
  by (simp add: populate_default_events_def insert_events_length default_events_length)

lemma seeded_events:
  assumes "game_events d = []"
  shows "\<exists>rows. game_events (populate_default_events now d) = rows \<and>
      map ge_title rows = map title default_events \<and>
      map ge_description rows = map description default_events \<and>
      map ge_options rows = map options default_events"
  using assms insert_events_rows [of now default_events d]
  by (simp add: populate_default_events_def)

lemma empty_events: "game_events empty_database = []"
  by (simp add: empty_database_def)

lemma seeded_random_event:
  assumes "game_events d = []"
  shows "get_random_event (init_database now d) r =
     Some \<lparr>ev_title = title (default_events ! (r mod 7)),
           ev_description = description (default_events ! (r mod 7)),
           ev_options = options (default_events ! (r mod 7))\<rparr>"
proof -
  from seeded_events [OF assms, of now] obtain rows where
    rows: "game_events (init_database now d) = rows"
      "map ge_title rows = map title default_events"
      "map ge_description rows = map description default_events" 
      "map ge_options rows = map options default_events"
    by (auto simp: init_database_def)
  from rows(2) have len: "length rows = 7"
    using default_events_length by (metis length_map)
  then have k: "r mod 7 < length rows" "r mod 7 < length default_events"
    by (simp_all add: default_events_length)
  have "ge_title (rows ! (r mod 7)) = title (default_events ! (r mod 7))"
    using rows(2) k by (metis nth_map)
  moreover have "ge_description (rows ! (r mod 7)) = description (default_events ! (r mod 7))"
    using rows(3) k by (metis nth_map)
  moreover have "ge_options (rows ! (r mod 7)) = options (default_events ! (r mod 7))"
    using rows(4) k by (metis nth_map)
  ultimately show ?thesis
    using rows(1) len by (auto simp: get_random_event_def Let_def)
qed

subsection \<open>Saved sessions\<close>

lemma find_after_replace:
  "P x \<Longrightarrow> find P (filter (\<lambda>y. \<not> P y) xs @ [x]) = Some x"
  by (induction xs) auto

lemma save_game_row:
  assumes "map fst (state_stats game_state) = stat_names"
    and "session_fits game_state"
  shows "\<exists>row. save_game now d save_name game_state =
           Inr (d\<lparr>game_sessions :=
                   filter (\<lambda>row. gs_save_name row \<noteq> save_name) (game_sessions d) @ [row],
                 game_sessions_seq := game_sessions_seq d + 1\<rparr>) \<and>
         gs_save_name row = save_name \<and>
         gs_country_name row = state_country_name game_state \<and>
         gs_current_year row = state_current_year game_state \<and>
         gs_current_turn row = state_current_turn game_state \<and>
         state_stats game_state =
           [(''economy'', gs_economy row), (''happiness'', gs_happiness row),
            (''stability'', gs_stability row), (''relations'', gs_relations row),
            (''military_power'', gs_military_power row),
            (''environment'', gs_environment row)]"
proof -
  from stat_vector_shape [OF assms(1)] obtain e h s r m v where
    st: "state_stats game_state = [(''economy'', e), (''happiness'', h), (''stability'', s),
            (''relations'', r), (''military_power'', m), (''environment'', v)]"
    by blast
  with assms(2) have fits: "list_all fits_int64
      [state_current_year game_state, state_current_turn game_state, e, h, s, r, m, v]"
    by (simp add: session_fits_def)
  from st fits show ?thesis
    by (intro exI [of _ "\<lparr>gs_id = game_sessions_seq d + 1, gs_save_name = save_name,
            gs_country_name = state_country_name game_state,
            gs_current_year = state_current_year game_state,
            gs_current_turn = state_current_turn game_state,
            gs_economy = e, gs_happiness = h, gs_stability = s, gs_relations = r,
            gs_military_power = m, gs_environment = v,
            gs_created_at = now, gs_updated_at = now\<rparr>"])
       (simp add: save_game_def and_then_def getitem_def)
qed

lemma save_game_overflow:
  assumes "map fst (state_stats game_state) = stat_names"
    and "\<not> session_fits game_state"
  shows "save_game now d save_name game_state = Inl OverflowError"
proof -
  from stat_vector_shape [OF assms(1)] obtain e h s r m v where
    st: "state_stats game_state = [(''economy'', e), (''happiness'', h), (''stability'', s),
            (''relations'', r), (''military_power'', m), (''environment'', v)]"
    by blast
  with assms(2) have "\<not> list_all fits_int64
      [state_current_year game_state, state_current_turn game_state, e, h, s, r, m, v]"
    by (simp add: session_fits_def)
  with st show ?thesis
    by (simp add: save_game_def and_then_def getitem_def)
qed

lemma save_game_sessions_ok:
  assumes "save_game now d save_name game_state = Inr d'"
    and "stat_vector (state_stats game_state)"
    and "list_all session_row_ok (game_sessions d)"
  shows "list_all session_row_ok (game_sessions d')"
proof -
  from assms(2) obtain e h s r m v where
    st: "state_stats game_state = [(''economy'', e), (''happiness'', h), (''stability'', s),
            (''relations'', r), (''military_power'', m), (''environment'', v)]"
    using stat_vector_shape unfolding stat_vector_def by blast
  with assms(2) have rng: "list_all (\<lambda>v. 0 \<le> v \<and> v \<le> 100) [e, h, s, r, m, v]"
    by (simp add: stat_vector_def)
  from assms(1) st have
    "game_sessions d' = filter (\<lambda>row. gs_save_name row \<noteq> save_name) (game_sessions d) @
       [\<lparr>gs_id = game_sessions_seq d + 1, gs_save_name = save_name,
         gs_country_name = state_country_name game_state,
         gs_current_year = state_current_year game_state,
         gs_current_turn = state_current_turn game_state,
         gs_economy = e, gs_happiness = h, gs_stability = s, gs_relations = r,
         gs_military_power = m, gs_environment = v,
         gs_created_at = now, gs_updated_at = now\<rparr>]"
    by (auto simp: save_game_def and_then_def getitem_def split: if_splits)
  with rng assms(3) show ?thesis
    by (auto simp: session_row_ok_def list_all_iff)
qed

lemma load_game_stat_vector:
  assumes "load_game d save_name = Some game_state"
    and "list_all session_row_ok (game_sessions d)"
  shows "stat_vector (state_stats game_state)"
proof -
  from assms(1) obtain row where
    f: "find (\<lambda>row. gs_save_name row = save_name) (game_sessions d) = Some row"
    and st: "state_stats game_state =
       [(''economy'', gs_economy row), (''happiness'', gs_happiness row),
        (''stability'', gs_stability row), (''relations'', gs_relations row),
        (''military_power'', gs_military_power row), (''environment'', gs_environment row)]"
    by (auto simp: load_game_def split: option.splits)
  from f have "row \<in> set (game_sessions d)"
    by (auto simp: find_Some_iff)
  with assms(2) have "session_row_ok row" by (simp add: list_all_iff)
  with st show ?thesis
    by (simp add: stat_vector_def stat_names_def session_row_ok_def)
qed

lemma save_game_scores:
  "save_game now d save_name game_state = Inr d' \<Longrightarrow>
   high_scores d' = high_scores d \<and> high_scores_seq d' = high_scores_seq d"
  by (auto simp: save_game_def and_then_def split: sum.splits if_splits)

subsection \<open>Scores\<close>

lemma save_high_score_sessions:
  "save_high_score now d score_data = Inr d' \<Longrightarrow> game_sessions d' = game_sessions d"
  by (auto simp: save_high_score_def and_then_def split: sum.splits)


lemma save_high_score_wf:
  assumes "save_high_score now d score_data = Inr d'" and "scores_wf d"
  shows "scores_wf d'"
proof -
  from assms(1) obtain row where
    d': "d' = d\<lparr>high_scores := high_scores d @ [row],
               high_scores_seq := high_scores_seq d + 1\<rparr>"
    and row: "hs_id row = high_scores_seq d + 1"
    by (auto simp: save_high_score_def and_then_def split: sum.splits)
  from assms(2) have "\<forall>r \<in> set (high_scores d). hs_id r < hs_id row"
    using row by (auto simp: scores_wf_def list_all_iff)
  with assms(2) d' row show ?thesis
    by (auto simp: scores_wf_def sorted_wrt_append list_all_iff)
qed



section \<open>Properties of the game\<close>

subsection \<open>One decision\<close>

lemma check_game_over_not_IndexError: "check_game_over st \<noteq> Inl IndexError"
  by (induction st) (auto simp: and_then_def getitem_def split: option.splits if_splits)

lemma game_over_screen_fields:
  "stats (game_over_screen g now cause) = stats g"
  "current_turn (game_over_screen g now cause) = current_turn g"
  "current_year (game_over_screen g now cause) = current_year g"
  "current_event (game_over_screen g now cause) = current_event g"
  by (auto simp: game_over_screen_def Let_def split: sum.splits)


lemma list_index_IndexError:
  "list_index xs i = Inl e \<longleftrightarrow>
     e = IndexError \<and> (i < - int (length xs) \<or> int (length xs) \<le> i)"
  by (auto simp: list_index_def Let_def)

lemma list_index_negative:
  "- int (length xs) \<le> i \<Longrightarrow> i \<le> - 1 \<Longrightarrow>
   list_index xs i = Inr (xs ! nat (int (length xs) + i)) \<and>
   list_index xs (int (length xs) + i) = Inr (xs ! nat (int (length xs) + i))"
  by (auto simp: list_index_def Let_def)

text \<open>What a call does once the option has been found.\<close>

lemma make_decision_chosen:
  assumes "current_event g = Some ev"
    and "list_index (ev_options ev) choice_index = Inr chosen"
  shows "fst (make_decision g now choice_index) \<noteq> Inl IndexError"
    and "stats (snd (make_decision g now choice_index)) =
           apply_effects (stats g) (opt_effects chosen)"
    and "current_turn (snd (make_decision g now choice_index)) = current_turn g + 1"
    and "current_year (snd (make_decision g now choice_index)) =
           (if (current_turn g + 1) mod 4 = 0 then current_year g + 1 else current_year g)"
  using assms check_game_over_not_IndexError
  by (auto simp: make_decision_def Let_def game_over_screen_fields
           split: sum.splits prod.splits)

lemma make_decision_returns:
  assumes "make_decision g now choice_index = (Inr game_over, g')"
  shows "\<exists>ev chosen. current_event g = Some ev \<and>
           list_index (ev_options ev) choice_index = Inr chosen"
  using assms
  by (auto simp: make_decision_def split: option.splits sum.splits)


lemma div4_step: "((t::int) + 1) div 4 = t div 4 + (if (t + 1) mod 4 = 0 then 1 else 0)"
  by presburger

lemma decisions_turn_year:
  "decisions g steps = Some g' \<Longrightarrow>
   current_turn g' = current_turn g + int (length steps) \<and>
   current_year g' =
     current_year g + ((current_turn g + int (length steps)) div 4 - current_turn g div 4)"
proof (induction steps arbitrary: g)
  case Nil
  then show ?case by simp
next
  case (Cons step steps)
  obtain now i r where step: "step = (now, i, r)" by (cases step)
  from Cons.prems step obtain game_over g1 where
    md: "make_decision g now i = (Inr game_over, g1)"
    and rest: "decisions (if game_over then g1 else load_next_event g1 r) steps = Some g'"
    by (auto split: prod.splits sum.splits)
  let ?g2 = "if game_over then g1 else load_next_event g1 r"
  from make_decision_returns [OF md] obtain ev chosen where
    ev: "current_event g = Some ev" "list_index (ev_options ev) i = Inr chosen" by blast
  from make_decision_chosen(3,4) [OF ev, of now] md
  have g1: "current_turn g1 = current_turn g + 1"
    "current_year g1 = (if (current_turn g + 1) mod 4 = 0 then current_year g + 1 else current_year g)"
    by simp_all
  then have g2: "current_turn ?g2 = current_turn g + 1"
    "current_year ?g2 = current_year g + ((current_turn g + 1) div 4 - current_turn g div 4)"
    by (simp_all add: load_next_event_def div4_step)
  from Cons.IH [OF rest] g2 show ?case by (simp add: algebra_simps)
qed

subsection \<open>What every callback keeps\<close>

lemma initial_stats_stat_vector: "stat_vector initial_stats"
  by (simp add: stat_vector_def initial_stats_def stat_names_def)

lemma game_over_screen_ok: "game_ok g \<Longrightarrow> game_ok (game_over_screen g now cause)"
  by (auto simp: game_over_screen_def game_ok_def Let_def save_high_score_sessions
           split: sum.splits)

lemma load_next_event_ok: "game_ok g \<Longrightarrow> game_ok (load_next_event g r)"
  by (simp add: load_next_event_def game_ok_def)

lemma start_game_ok: "game_ok g \<Longrightarrow> game_ok (start_game g p c r)"
  by (simp add: start_game_def setup_game_interface_def load_next_event_def game_ok_def
        initial_stats_stat_vector)

lemma make_decision_ok:
  assumes "game_ok g"
  shows "game_ok (snd (make_decision g now choice_index))"
proof (cases "current_event g")
  case None
  with assms show ?thesis by (simp add: make_decision_def)
next
  case (Some ev)
  show ?thesis
  proof (cases "list_index (ev_options ev) choice_index")
    case (Inl e)
    with Some assms show ?thesis by (simp add: make_decision_def)
  next
    case (Inr chosen)
    define g3 where "g3 =
      (if (current_turn g + 1) mod 4 = 0
       then g\<lparr>stats := apply_effects (stats g) (opt_effects chosen),
              current_turn := current_turn g + 1, current_year := current_year g + 1\<rparr>
       else g\<lparr>stats := apply_effects (stats g) (opt_effects chosen),
              current_turn := current_turn g + 1\<rparr>)"
    have ok3: "game_ok g3"
      using assms by (simp add: g3_def game_ok_def apply_effects_stat_vector)
    have "snd (make_decision g now choice_index) =
      (case check_game_over (stats g3) of
         Inl e \<Rightarrow> g3
       | Inr (game_over, cause) \<Rightarrow> if game_over then game_over_screen g3 now cause else g3)"
      using Some Inr
      by (auto simp: make_decision_def g3_def Let_def split: sum.splits prod.splits)
    with ok3 show ?thesis
      by (auto simp: game_over_screen_ok split: sum.splits prod.splits)
  qed
qed

lemma save_game_dialog_ok: "game_ok g \<Longrightarrow> game_ok (save_game_dialog g now save_name)"
  by (auto simp: save_game_dialog_def game_ok_def Let_def split: sum.splits
           intro: save_game_sessions_ok)

lemma load_selected_game_ok: "game_ok g \<Longrightarrow> game_ok (load_selected_game g save_name r)"
  by (auto simp: load_selected_game_def setup_game_interface_def load_next_event_def
        game_ok_def split: option.splits intro: load_game_stat_vector)

lemma perform_ok: "game_ok g \<Longrightarrow> game_ok (perform g a)"
  by (cases a)
     (simp_all add: start_game_ok make_decision_ok load_next_event_ok save_game_dialog_ok
        load_selected_game_ok)

lemma play_ok: "game_ok g \<Longrightarrow> game_ok (play g actions)"
  unfolding play_def by (induction actions arbitrary: g) (simp_all add: perform_ok)

lemma init_gui_ok:
  "list_all session_row_ok (game_sessions d0) \<Longrightarrow> game_ok (init_gui now d0)"
  by (simp add: init_gui_def game_ok_def init_database_sessions initial_stats_stat_vector)

text \<open>
  The rowids of the score table stay well-formed too, whatever the player does.
\<close>

lemma game_over_screen_scores_wf:
  "scores_wf (db g) \<Longrightarrow> scores_wf (db (game_over_screen g now cause))"
  by (auto simp: game_over_screen_def Let_def split: sum.splits intro: save_high_score_wf)

lemma make_decision_scores_wf:
  assumes "scores_wf (db g)"
  shows "scores_wf (db (snd (make_decision g now choice_index)))"
  using assms
  by (auto simp: make_decision_def Let_def game_over_screen_scores_wf
           split: option.splits sum.splits prod.splits)

lemma perform_scores_wf: "scores_wf (db g) \<Longrightarrow> scores_wf (db (perform g a))"
proof (cases a)
  case (Save now save_name)
  assume "scores_wf (db g)"
  with Save show ?thesis
    by (auto simp: save_game_dialog_def Let_def scores_wf_def split: sum.splits
             dest!: save_game_scores)
next
  case (Decide now choice_index)
  assume "scores_wf (db g)"
  with Decide show ?thesis by (simp add: make_decision_scores_wf)
qed (auto simp: start_game_def setup_game_interface_def load_next_event_def
       load_selected_game_def split: option.splits)

lemma play_scores_wf: "scores_wf (db g) \<Longrightarrow> scores_wf (db (play g actions))"
  unfolding play_def by (induction actions arbitrary: g) (simp_all add: perform_scores_wf)

lemma init_gui_scores_wf: "scores_wf (db (init_gui now empty_database))"
  by (simp add: init_gui_def init_database_def populate_default_events_def
        insert_events_scores scores_wf_def)
     (simp add: empty_database_def)

subsection \<open>A new game on a new database\<close>


lemma new_game_fields:
  "current_event (start_game (init_gui now empty_database) p c r) =
     Some \<lparr>ev_title = title (default_events ! (r mod 7)),
           ev_description = description (default_events ! (r mod 7)),
           ev_options = options (default_events ! (r mod 7))\<rparr>"
  "stats (start_game (init_gui now empty_database) p c r) = initial_stats"
  "current_turn (start_game (init_gui now empty_database) p c r) = 0"
  "current_year (start_game (init_gui now empty_database) p c r) = 2024"
  "db (start_game (init_gui now empty_database) p c r) = init_database now empty_database"
  by (simp_all add: start_game_def setup_game_interface_def load_next_event_def init_gui_def
        seeded_random_event empty_database_def)

lemma strike_options:
  "length (options (default_events ! 0)) = 4"
  "opt_effects (options (default_events ! 0) ! 2) =
     [(''economy'', - 5), (''happiness'', 10), (''stability'', 5)]"
  "opt_effects (options (default_events ! 0) ! 3) =
     [(''economy'', - 3), (''happiness'', 8), (''relations'', 3)]"
  by (simp_all add: default_events_def)


lemma new_game_decide_last:
  "fst (make_decision (start_game (init_gui now empty_database) p c 0) now' (- 1)) = Inr False"
  "stats (snd (make_decision (start_game (init_gui now empty_database) p c 0) now' (- 1))) =
     [(''economy'', 47), (''happiness'', 58), (''stability'', 50),
      (''relations'', 53), (''military_power'', 50), (''environment'', 50)]"
  by (simp_all add: make_decision_def new_game_fields strike_options list_index_def Let_def
        initial_stats_def)

lemma eight_decisions:
  "\<exists>g'. decisions (start_game (init_gui now empty_database) p c 0)
      [(t1, 2, 0), (t2, 2, 0), (t3, 2, 0), (t4, 2, 0),
       (t5, 2, 0), (t6, 2, 0), (t7, 2, 0), (t8, 2, 0)] = Some g'"
  by (simp add: make_decision_def new_game_fields strike_options list_index_def Let_def
        initial_stats_def load_next_event_def seeded_random_event empty_events)

section \<open>The end of the game\<close>

text \<open>
  C9. On a stat vector \<open>check_game_over\<close> never raises, and its flag is true exactly
  when one of the six values is 0. When every value lies in \<open>1..100\<close>, a value of 100
  included, the answer is \<open>(False, "")\<close>.
\<close>

theorem check_game_over_iff_zero:
  assumes "stat_vector st"
  shows "(\<exists>msg. check_game_over st = Inr (0 \<in> set (map snd st), msg)) \<and>
         (list_all (\<lambda>v. 1 \<le> v \<and> v \<le> 100) (map snd st) \<longrightarrow>
            check_game_over st = Inr (False, []))"
proof
  from assms show "\<exists>msg. check_game_over st = Inr (0 \<in> set (map snd st), msg)"
    unfolding stat_vector_def
    by (intro check_game_over_total) (auto simp: list_all_iff)
  show "list_all (\<lambda>v. 1 \<le> v \<and> v \<le> 100) (map snd st) \<longrightarrow>
            check_game_over st = Inr (False, [])"
    by (fastforce intro!: check_game_over_positive simp: list_all_iff)
qed

theorem check_game_over_iff_zero_witness:
  "stat_vector initial_stats \<and>
   list_all (\<lambda>v. 1 \<le> v \<and> v \<le> 100) (map snd initial_stats) \<and>
   check_game_over initial_stats = Inr (False, []) \<and>
   0 \<notin> set (map snd initial_stats)"
proof -
  have sv: "stat_vector initial_stats"
    by (simp add: stat_vector_def initial_stats_def stat_names_def)
  have pos: "list_all (\<lambda>v. 1 \<le> v \<and> v \<le> 100) (map snd initial_stats)"
    by (simp add: initial_stats_def)
  have nz: "0 \<notin> set (map snd initial_stats)"
    by (simp add: initial_stats_def)
  from check_game_over_iff_zero [OF sv] pos
  have "check_game_over initial_stats = Inr (False, [])" by simp
  with sv pos nz show ?thesis by simp
qed

text \<open>
  C4. On a stat vector with a value at 0, \<open>check_game_over\<close> reports the message of the
  first stat, in the order economy, happiness, stability, relations, military_power,
  environment, whose value is 0; no other stat has that message. With economy and
  happiness both at 0 the message is the one of economy.
\<close>

theorem check_game_over_first_zero:
  assumes "stat_vector st"
    and "find (\<lambda>name. dict_get st name = Some 0) stat_names = Some k"
  shows "\<exists>msg. dict_get causes k = Some msg \<and> check_game_over st = Inr (True, msg) \<and>
           (\<forall>k'. dict_get causes k' = Some msg \<longrightarrow> k' = k)"
proof -
  from assms(1) have keys: "map fst st = stat_names"
    and range: "list_all (\<lambda>v. 0 \<le> v) (map snd st)"
    by (auto simp: stat_vector_def list_all_iff)
  have "distinct stat_names" by (simp add: stat_names_def)
  with keys have "distinct (map fst st)" by simp
  from first_zero_find [OF this range] assms(2) keys
  obtain v where f: "find (\<lambda>(stat, v). v \<le> 0) st = Some (k, v)"
    by (cases "find (\<lambda>(stat, v). v \<le> 0) st") auto
  from assms(2) have "k \<in> set stat_names" by (auto simp: find_Some_iff)
  then obtain msg where m: "getitem causes k = Inr msg" using getitem_causes by blast
  then have g: "dict_get causes k = Some msg"
    by (auto simp: getitem_def split: option.splits)
  from f m have "check_game_over st = Inr (True, msg)"
    by (simp add: check_game_over_find and_then_def)
  with g causes_injective show ?thesis by blast
qed

theorem check_game_over_first_zero_witness:
  "stat_vector [(''economy'', 0), (''happiness'', 0), (''stability'', 50),
                (''relations'', 50), (''military_power'', 50), (''environment'', 50)] \<and>
   find (\<lambda>name. dict_get [(''economy'', 0), (''happiness'', 0), (''stability'', 50),
                (''relations'', 50), (''military_power'', 50), (''environment'', 50)] name
             = Some (0::int)) stat_names = Some ''economy'' \<and>
   (\<exists>msg. dict_get causes ''economy'' = Some msg \<and>
      check_game_over [(''economy'', 0), (''happiness'', 0), (''stability'', 50),
                (''relations'', 50), (''military_power'', 50), (''environment'', 50)]
        = Inr (True, msg) \<and>
      (\<forall>k'. dict_get causes k' = Some msg \<longrightarrow> k' = ''economy''))"
proof -
  let ?st = "[(''economy'', 0), (''happiness'', 0), (''stability'', 50),
              (''relations'', 50), (''military_power'', 50), (''environment'', 50)] :: stats"
  have sv: "stat_vector ?st"
    by (simp add: stat_vector_def stat_names_def)
  have fz: "find (\<lambda>name. dict_get ?st name = Some 0) stat_names = Some ''economy''"
    by (simp add: stat_names_def)
  note ex = check_game_over_first_zero [OF sv fz]
  show ?thesis by (intro conjI sv fz ex)
qed

section \<open>Turns and years\<close>

text \<open>
  C3. A call of \<open>make_decision\<close> that returns adds 1 to \<open>current_turn\<close>, and adds 1
  to \<open>current_year\<close> exactly when the new turn is divisible by 4. Hence \<open>n\<close> calls
  that return, after \<open>start_game\<close> and whether or not the game has ended in between,
  leave \<open>current_turn = n\<close> and \<open>current_year = 2024 + n div 4\<close>: 2025 after 4 and
  after 7 calls, 2026 after 8.
\<close>

theorem make_decision_turn_year:
  "(make_decision g now choice_index = (Inr game_over, g') \<longrightarrow>
      current_turn g' = current_turn g + 1 \<and>
      current_year g' =
        (if (current_turn g + 1) mod 4 = 0 then current_year g + 1 else current_year g)) \<and>
   (decisions (start_game prev player_entry country_entry r) steps = Some g'' \<longrightarrow>
      current_turn g'' = int (length steps) \<and>
      current_year g'' = 2024 + int (length steps) div 4)"
proof (intro conjI impI)
  assume md: "make_decision g now choice_index = (Inr game_over, g')"
  from make_decision_returns [OF md] obtain ev chosen where
    ev: "current_event g = Some ev" "list_index (ev_options ev) choice_index = Inr chosen"
    by blast
  from make_decision_chosen(3,4) [OF ev, of now] md
  show "current_turn g' = current_turn g + 1"
    and "current_year g' =
        (if (current_turn g + 1) mod 4 = 0 then current_year g + 1 else current_year g)"
    by simp_all
next
  assume run: "decisions (start_game prev player_entry country_entry r) steps = Some g''"
  have start: "current_turn (start_game prev player_entry country_entry r) = 0"
    "current_year (start_game prev player_entry country_entry r) = 2024"
    by (simp_all add: start_game_def setup_game_interface_def load_next_event_def)
  from decisions_turn_year [OF run] start
  show "current_turn g'' = int (length steps)"
    and "current_year g'' = 2024 + int (length steps) div 4"
    by simp_all
qed

theorem make_decision_turn_year_witness:
  "fst (make_decision
     (start_game (init_gui ''2024-01-01 00:00:00'' empty_database) ''Ada'' ''Utopia'' 0)
     ''2024-01-01 00:01:00'' 2) = Inr False \<and>
   current_turn (snd (make_decision
     (start_game (init_gui ''2024-01-01 00:00:00'' empty_database) ''Ada'' ''Utopia'' 0)
     ''2024-01-01 00:01:00'' 2)) = 1 \<and>
   current_year (snd (make_decision
     (start_game (init_gui ''2024-01-01 00:00:00'' empty_database) ''Ada'' ''Utopia'' 0)
     ''2024-01-01 00:01:00'' 2)) = 2024 \<and>
   map_option current_turn (decisions
     (start_game (init_gui ''2024-01-01 00:00:00'' empty_database) ''Ada'' ''Utopia'' 0)
     [(''2024-01-01 00:01:00'', 2, 0), (''2024-01-01 00:02:00'', 2, 0),
      (''2024-01-01 00:03:00'', 2, 0), (''2024-01-01 00:04:00'', 2, 0),
      (''2024-01-01 00:05:00'', 2, 0), (''2024-01-01 00:06:00'', 2, 0),
      (''2024-01-01 00:07:00'', 2, 0), (''2024-01-01 00:08:00'', 2, 0)]) = Some 8 \<and>
   map_option current_year (decisions
     (start_game (init_gui ''2024-01-01 00:00:00'' empty_database) ''Ada'' ''Utopia'' 0)
     [(''2024-01-01 00:01:00'', 2, 0), (''2024-01-01 00:02:00'', 2, 0),
      (''2024-01-01 00:03:00'', 2, 0), (''2024-01-01 00:04:00'', 2, 0),
      (''2024-01-01 00:05:00'', 2, 0), (''2024-01-01 00:06:00'', 2, 0),
      (''2024-01-01 00:07:00'', 2, 0), (''2024-01-01 00:08:00'', 2, 0)]) = Some 2026"
proof -
  let ?init = "init_gui ''2024-01-01 00:00:00'' empty_database"
  let ?g = "start_game ?init ''Ada'' ''Utopia'' 0"
  let ?steps = "[(''2024-01-01 00:01:00'', 2, 0), (''2024-01-01 00:02:00'', 2, 0),
      (''2024-01-01 00:03:00'', 2, 0), (''2024-01-01 00:04:00'', 2, 0),
      (''2024-01-01 00:05:00'', 2, 0), (''2024-01-01 00:06:00'', 2, 0),
      (''2024-01-01 00:07:00'', 2, 0), (''2024-01-01 00:08:00'', 2, 0)]"
  have first: "fst (make_decision ?g ''2024-01-01 00:01:00'' 2) = Inr False"
    by (simp add: make_decision_def new_game_fields strike_options list_index_def Let_def
          initial_stats_def)
  then have md: "make_decision ?g ''2024-01-01 00:01:00'' 2 =
      (Inr False, snd (make_decision ?g ''2024-01-01 00:01:00'' 2))"
    by (metis prod.collapse)
  obtain g'' where run: "decisions ?g ?steps = Some g''"
    using eight_decisions by blast
  note inst = make_decision_turn_year
    [where g = ?g and now = "''2024-01-01 00:01:00''" and choice_index = 2
       and game_over = False and g' = "snd (make_decision ?g ''2024-01-01 00:01:00'' 2)"
       and prev = ?init and player_entry = "''Ada''" and country_entry = "''Utopia''"
       and r = 0 and steps = ?steps and g'' = g'']
  from inst [THEN conjunct1, THEN mp, OF md]
  have one: "current_turn (snd (make_decision ?g ''2024-01-01 00:01:00'' 2)) = 1"
    "current_year (snd (make_decision ?g ''2024-01-01 00:01:00'' 2)) = 2024"
    by (simp_all add: new_game_fields)
  from inst [THEN conjunct2, THEN mp, OF run]
  have "current_turn g'' = 8" "current_year g'' = 2026" by simp_all
  with run have eight: "map_option current_turn (decisions ?g ?steps) = Some 8"
    "map_option current_year (decisions ?g ?steps) = Some 2026"
    by simp_all
  show ?thesis by (intro conjI first one eight)
qed

section \<open>The chosen option\<close>

text \<open>
  C5, as the code has it. With a current event of \<open>n\<close> options, \<open>make_decision\<close>
  raises \<open>IndexError\<close> exactly when the index is below \<open>-n\<close> or at least \<open>n\<close>, and
  then the object, its stats, turn and year included, is as it was before the call.
\<close>

theorem make_decision_index_error:
  assumes "current_event g = Some ev"
  shows "(fst (make_decision g now choice_index) = Inl IndexError \<longleftrightarrow>
            choice_index < - int (length (ev_options ev)) \<or>
            int (length (ev_options ev)) \<le> choice_index) \<and>
         (fst (make_decision g now choice_index) = Inl IndexError \<longrightarrow>
            snd (make_decision g now choice_index) = g)"
proof (cases "list_index (ev_options ev) choice_index")
  case (Inl e)
  then have "e = IndexError" and "choice_index < - int (length (ev_options ev)) \<or>
            int (length (ev_options ev)) \<le> choice_index"
    by (simp_all add: list_index_IndexError)
  with Inl assms show ?thesis by (simp add: make_decision_def)
next
  case (Inr chosen)
  from make_decision_chosen(1) [OF assms Inr]
  have no: "fst (make_decision g now choice_index) \<noteq> Inl IndexError" .
  have "\<not> (choice_index < - int (length (ev_options ev)) \<or>
            int (length (ev_options ev)) \<le> choice_index)"
    using Inr list_index_IndexError [of "ev_options ev" choice_index IndexError] by auto
  with no show ?thesis by simp
qed

theorem make_decision_index_error_witness:
  "current_event
     (start_game (init_gui ''2024-01-01 00:00:00'' empty_database) ''Ada'' ''Utopia'' 0) =
     Some \<lparr>ev_title = title (default_events ! 0),
           ev_description = description (default_events ! 0),
           ev_options = options (default_events ! 0)\<rparr> \<and>
   length (options (default_events ! 0)) = 4 \<and>
   fst (make_decision
     (start_game (init_gui ''2024-01-01 00:00:00'' empty_database) ''Ada'' ''Utopia'' 0)
     ''2024-01-01 00:01:00'' 4) = Inl IndexError \<and>
   snd (make_decision
     (start_game (init_gui ''2024-01-01 00:00:00'' empty_database) ''Ada'' ''Utopia'' 0)
     ''2024-01-01 00:01:00'' 4) =
     start_game (init_gui ''2024-01-01 00:00:00'' empty_database) ''Ada'' ''Utopia'' 0"
proof -
  let ?g = "start_game (init_gui ''2024-01-01 00:00:00'' empty_database) ''Ada'' ''Utopia'' 0"
  let ?ev = "\<lparr>ev_title = title (default_events ! 0),
           ev_description = description (default_events ! 0),
           ev_options = options (default_events ! 0)\<rparr>"
  have ev: "current_event ?g = Some ?ev"
    using new_game_fields(1) [of "''2024-01-01 00:00:00''" "''Ada''" "''Utopia''" 0] by simp
  have len: "length (options (default_events ! 0)) = 4" by (rule strike_options(1))
  note inst = make_decision_index_error [OF ev, of "''2024-01-01 00:01:00''" 4]
  from inst [THEN conjunct1] len
  have err: "fst (make_decision ?g ''2024-01-01 00:01:00'' 4) = Inl IndexError" by simp
  from inst [THEN conjunct2, THEN mp, OF err]
  have same: "snd (make_decision ?g ''2024-01-01 00:01:00'' 4) = ?g" .
  show ?thesis by (intro conjI ev len err same)
qed

text \<open>
  C5 as stated fails: on a new game, whose event has four options, the index \<open>-1\<close>
  lies outside \<open>0..3\<close>, yet the call raises nothing and applies the last option.
\<close>

theorem make_decision_index_claim_counterexample:
  "current_event (start_game (init_gui ''2024-01-01 00:00:00'' empty_database) ''Ada'' ''Utopia'' 0) =
     Some \<lparr>ev_title = title (default_events ! 0),
           ev_description = description (default_events ! 0),
           ev_options = options (default_events ! 0)\<rparr> \<and>
   length (options (default_events ! 0)) = 4 \<and>
   \<not> (fst (make_decision
             (start_game (init_gui ''2024-01-01 00:00:00'' empty_database) ''Ada'' ''Utopia'' 0)
             ''2024-01-01 00:00:05'' (- 1)) = Inl IndexError
        \<longleftrightarrow> \<not> (0 \<le> (- 1 :: int) \<and> (- 1 :: int) < 4)) \<and>
   fst (make_decision
          (start_game (init_gui ''2024-01-01 00:00:00'' empty_database) ''Ada'' ''Utopia'' 0)
          ''2024-01-01 00:00:05'' (- 1)) = Inr False \<and>
   stats (snd (make_decision
             (start_game (init_gui ''2024-01-01 00:00:00'' empty_database) ''Ada'' ''Utopia'' 0)
             ''2024-01-01 00:00:05'' (- 1))) =
     [(''economy'', 47), (''happiness'', 58), (''stability'', 50),
      (''relations'', 53), (''military_power'', 50), (''environment'', 50)]"
  using new_game_fields(1) [of "''2024-01-01 00:00:00''" "''Ada''" "''Utopia''" 0]
    new_game_decide_last [of "''2024-01-01 00:00:00''" "''Ada''" "''Utopia''" "''2024-01-01 00:00:05''"]
  by (simp add: strike_options)

text \<open>
  C10. With a current event of \<open>n \<ge> 1\<close> options and stats that form a stat vector, an
  index \<open>i\<close> with \<open>-n \<le> i \<le> -1\<close> makes \<open>make_decision\<close> return without an
  exception; the call is the call at index \<open>n + i\<close>: it applies the effects of the option
  at that position and advances turn and year in the usual way.
\<close>

theorem make_decision_negative_index:
  assumes "current_event g = Some ev"
    and "1 \<le> length (ev_options ev)"
    and "- int (length (ev_options ev)) \<le> choice_index"
    and "choice_index \<le> - 1"
    and "stat_vector (stats g)"
  shows "(\<exists>game_over. fst (make_decision g now choice_index) = Inr game_over) \<and>
         make_decision g now choice_index =
           make_decision g now (int (length (ev_options ev)) + choice_index) \<and>
         stats (snd (make_decision g now choice_index)) =
           apply_effects (stats g)
             (opt_effects (ev_options ev ! nat (int (length (ev_options ev)) + choice_index))) \<and>
         current_turn (snd (make_decision g now choice_index)) = current_turn g + 1 \<and>
         current_year (snd (make_decision g now choice_index)) =
           (if (current_turn g + 1) mod 4 = 0 then current_year g + 1 else current_year g)"
proof -
  let ?n = "int (length (ev_options ev))"
  let ?chosen = "ev_options ev ! nat (?n + choice_index)"
  from list_index_negative [OF assms(3,4)]
  have neg: "list_index (ev_options ev) choice_index = Inr ?chosen"
    and pos: "list_index (ev_options ev) (?n + choice_index) = Inr ?chosen"
    by simp_all
  from assms(1) neg pos
  have same: "make_decision g now choice_index = make_decision g now (?n + choice_index)"
    by (simp add: make_decision_def)
  have "stat_vector (apply_effects (stats g) (opt_effects ?chosen))"
    using assms(5) by (rule apply_effects_stat_vector)
  then obtain msg where
    "check_game_over (apply_effects (stats g) (opt_effects ?chosen)) =
       Inr (0 \<in> set (map snd (apply_effects (stats g) (opt_effects ?chosen))), msg)"
    using check_game_over_total [of "apply_effects (stats g) (opt_effects ?chosen)"]
    by (auto simp: stat_vector_def list_all_iff)
  with assms(1) neg
  have ok: "\<exists>game_over. fst (make_decision g now choice_index) = Inr game_over"
    by (auto simp: make_decision_def Let_def)
  from ok same make_decision_chosen(2,3,4) [OF assms(1) neg, of now]
  show ?thesis by simp
qed

theorem make_decision_negative_index_witness:
  "current_event
     (start_game (init_gui ''2024-01-01 00:00:00'' empty_database) ''Ada'' ''Utopia'' 0) =
     Some \<lparr>ev_title = title (default_events ! 0),
           ev_description = description (default_events ! 0),
           ev_options = options (default_events ! 0)\<rparr> \<and>
   length (options (default_events ! 0)) = 4 \<and>
   stat_vector (stats
     (start_game (init_gui ''2024-01-01 00:00:00'' empty_database) ''Ada'' ''Utopia'' 0)) \<and>
   make_decision
     (start_game (init_gui ''2024-01-01 00:00:00'' empty_database) ''Ada'' ''Utopia'' 0)
     ''2024-01-01 00:01:00'' (- 1) =
   make_decision
     (start_game (init_gui ''2024-01-01 00:00:00'' empty_database) ''Ada'' ''Utopia'' 0)
     ''2024-01-01 00:01:00'' 3 \<and>
   stats (snd (make_decision
     (start_game (init_gui ''2024-01-01 00:00:00'' empty_database) ''Ada'' ''Utopia'' 0)
     ''2024-01-01 00:01:00'' (- 1))) =
     [(''economy'', 47), (''happiness'', 58), (''stability'', 50),
      (''relations'', 53), (''military_power'', 50), (''environment'', 50)] \<and>
   current_turn (snd (make_decision
     (start_game (init_gui ''2024-01-01 00:00:00'' empty_database) ''Ada'' ''Utopia'' 0)
     ''2024-01-01 00:01:00'' (- 1))) = 1"
proof -
  let ?g = "start_game (init_gui ''2024-01-01 00:00:00'' empty_database) ''Ada'' ''Utopia'' 0"
  let ?ev = "\<lparr>ev_title = title (default_events ! 0),
           ev_description = description (default_events ! 0),
           ev_options = options (default_events ! 0)\<rparr>"
  have ev: "current_event ?g = Some ?ev"
    using new_game_fields(1) [of "''2024-01-01 00:00:00''" "''Ada''" "''Utopia''" 0] by simp
  have len: "length (options (default_events ! 0)) = 4" by (rule strike_options(1))
  have sv: "stat_vector (stats ?g)"
    by (simp add: new_game_fields stat_vector_def initial_stats_def stat_names_def)
  have h2: "1 \<le> length (ev_options ?ev)" using len by simp
  have h3: "- int (length (ev_options ?ev)) \<le> - 1" using len by simp
  have h4: "(- 1 :: int) \<le> - 1" by simp
  note inst = make_decision_negative_index [OF ev h2 h3 h4 sv, of "''2024-01-01 00:01:00''"]
  from inst [THEN conjunct2, THEN conjunct1] len
  have same: "make_decision ?g ''2024-01-01 00:01:00'' (- 1) =
      make_decision ?g ''2024-01-01 00:01:00'' 3"
    by simp
  from inst [THEN conjunct2, THEN conjunct2, THEN conjunct1] len
  have "stats (snd (make_decision ?g ''2024-01-01 00:01:00'' (- 1))) =
      apply_effects (stats ?g) (opt_effects (options (default_events ! 0) ! 3))"
    by simp
  then have st: "stats (snd (make_decision ?g ''2024-01-01 00:01:00'' (- 1))) =
     [(''economy'', 47), (''happiness'', 58), (''stability'', 50),
      (''relations'', 53), (''military_power'', 50), (''environment'', 50)]"
    by (simp add: new_game_fields strike_options initial_stats_def)
  from inst [THEN conjunct2, THEN conjunct2, THEN conjunct2, THEN conjunct1]
  have turn: "current_turn (snd (make_decision ?g ''2024-01-01 00:01:00'' (- 1))) = 1"
    by (simp add: new_game_fields)
  show ?thesis by (intro conjI ev len sv same st turn)
qed

section \<open>The range of the statistics\<close>

text \<open>
  C2. \<open>apply_effects\<close> takes a stat vector to a stat vector, whatever the effects,
  keys outside the six stats included. A game whose stats are a stat vector and whose
  stored sessions hold values within \<open>0..100\<close> keeps stats within \<open>0..100\<close> through
  every sequence of new games, decisions, event draws, saves and loads; so does the game
  that starts on a new database.
\<close>

theorem stats_stay_in_range:
  "(stat_vector st \<longrightarrow> stat_vector (apply_effects st effects)) \<and>
   (game_ok g \<longrightarrow> stat_vector (stats (play g actions))) \<and>
   stat_vector (stats (play (init_gui now empty_database) actions))"
proof (intro conjI impI)
  assume "stat_vector st"
  then show "stat_vector (apply_effects st effects)" by (rule apply_effects_stat_vector)
next
  assume "game_ok g"
  then have "game_ok (play g actions)" by (rule play_ok)
  then show "stat_vector (stats (play g actions))" by (simp add: game_ok_def)
next
  have "game_ok (init_gui now empty_database)"
    by (rule init_gui_ok) (simp add: empty_database_def)
  then have "game_ok (play (init_gui now empty_database) actions)" by (rule play_ok)
  then show "stat_vector (stats (play (init_gui now empty_database) actions))"
    by (simp add: game_ok_def)
qed

theorem stats_stay_in_range_witness:
  "stat_vector initial_stats \<and>
   stat_vector (apply_effects initial_stats
     [(''economy'', - 60), (''happiness'', 70), (''morale'', 5)]) \<and>
   apply_effects initial_stats [(''economy'', - 60), (''happiness'', 70), (''morale'', 5)] =
     [(''economy'', 0), (''happiness'', 100), (''stability'', 50),
      (''relations'', 50), (''military_power'', 50), (''environment'', 50)] \<and>
   game_ok (init_gui ''2024-01-01 00:00:00'' empty_database) \<and>
   stat_vector (stats (play (init_gui ''2024-01-01 00:00:00'' empty_database)
     [New_Game ''Ada'' ''Utopia'' 3, Decide ''2024-01-01 00:01:00'' 1, Next_Event 6,
      Save ''2024-01-01 00:02:00'' ''alpha'', Decide ''2024-01-01 00:03:00'' (- 1),
      Next_Event 2, Load ''alpha'' 5, Decide ''2024-01-01 00:04:00'' 0]))"
proof -
  let ?effects = "[(''economy'', - 60), (''happiness'', 70), (''morale'', 5)]"
  let ?g = "init_gui ''2024-01-01 00:00:00'' empty_database"
  let ?actions = "[New_Game ''Ada'' ''Utopia'' 3, Decide ''2024-01-01 00:01:00'' 1, Next_Event 6,
      Save ''2024-01-01 00:02:00'' ''alpha'', Decide ''2024-01-01 00:03:00'' (- 1),
      Next_Event 2, Load ''alpha'' 5, Decide ''2024-01-01 00:04:00'' 0]"
  note range = stats_stay_in_range [of initial_stats ?effects ?g ?actions "''2024-01-01 00:00:00''"]
  have sv: "stat_vector initial_stats"
    by (simp add: stat_vector_def initial_stats_def stat_names_def)
  have ok: "game_ok ?g"
    by (simp add: game_ok_def init_gui_def init_database_sessions sv empty_database_def)
  from range sv have applied: "stat_vector (apply_effects initial_stats ?effects)"
    by (rule conjunct1 [THEN mp])
  from range [THEN conjunct2, THEN conjunct1] ok
  have played: "stat_vector (stats (play ?g ?actions))"
    by (rule mp)
  have result: "apply_effects initial_stats ?effects =
     [(''economy'', 0), (''happiness'', 100), (''stability'', 50),
      (''relations'', 50), (''military_power'', 50), (''environment'', 50)]"
    by (simp add: initial_stats_def)
  show ?thesis by (intro conjI sv applied result ok played)
qed

section \<open>The event catalogue\<close>

text \<open>
  C7. \<open>populate_default_events\<close> is idempotent. It leaves a table that holds an event
  as it is. Into an empty table it puts the seven default events in their order, each
  row taking its category, title, description and options from its default event, the
  next rowid, the level \<open>normal\<close> and the time of the call; nothing else in the
  database changes. Called twice on a new database it leaves seven events.
\<close>

theorem populate_default_events_idempotent:
  "populate_default_events now' (populate_default_events now d) =
     populate_default_events now d \<and>
   (game_events d \<noteq> [] \<longrightarrow> populate_default_events now d = d) \<and>
   (game_events d = [] \<longrightarrow>
      length (game_events (populate_default_events now d)) = 7 \<and>
      populate_default_events now d =
        d\<lparr>game_events :=
            map (\<lambda>(i, event).
                   \<lparr>ge_id = game_events_seq d + 1 + int i,
                    ge_category = category event,
                    ge_title = title event,
                    ge_description = description event,
                    ge_options = options event,
                    ge_difficulty_level = ''normal'',
                    ge_created_at = now\<rparr>)
                (enumerate 0 default_events),
          game_events_seq := game_events_seq d + 7\<rparr>) \<and>
   length (game_events
     (populate_default_events now' (populate_default_events now empty_database))) = 7"
proof -
  have seeded: "game_events (populate_default_events now d) \<noteq> []" for d
  proof (cases "game_events d = []")
    case True
    from populate_empty_length [OF this, of now] show ?thesis by auto
  next
    case False
    then show ?thesis by (simp add: populate_nonempty)
  qed
  have idem: "populate_default_events now' (populate_default_events now d) =
     populate_default_events now d"
    using seeded [of d] by (rule populate_nonempty)
  have table: "populate_default_events now d =
        d\<lparr>game_events :=
            map (\<lambda>(i, event).
                   \<lparr>ge_id = game_events_seq d + 1 + int i,
                    ge_category = category event,
                    ge_title = title event,
                    ge_description = description event,
                    ge_options = options event,
                    ge_difficulty_level = ''normal'',
                    ge_created_at = now\<rparr>)
                (enumerate 0 default_events),
          game_events_seq := game_events_seq d + 7\<rparr>" if "game_events d = []"
    using that
    by (simp add: populate_default_events_def insert_events_table default_events_length)
  have "length (game_events (populate_default_events now empty_database)) = 7"
    by (rule populate_empty_length) (simp add: empty_database_def)
  moreover have "populate_default_events now' (populate_default_events now empty_database) =
     populate_default_events now empty_database"
    using seeded [of empty_database] by (rule populate_nonempty)
  ultimately have twice: "length (game_events
     (populate_default_events now' (populate_default_events now empty_database))) = 7"
    by simp
  show ?thesis
    using idem populate_nonempty [of d now] populate_empty_length [of d now] table twice
    by (intro conjI impI)
qed

theorem populate_default_events_idempotent_witness:
  "game_events five_scores = [] \<and>
   length (game_events (populate_default_events ''2024-01-01 00:00:00'' five_scores)) = 7 \<and>
   map ge_id (game_events (populate_default_events ''2024-01-01 00:00:00'' five_scores)) =
     [1, 2, 3, 4, 5, 6, 7] \<and>
   map ge_title (game_events (populate_default_events ''2024-01-01 00:00:00'' five_scores)) =
     [''Auto Industry Strike'', ''Border Dispute Escalation'', ''Industrial Pollution Crisis'',
      ''Government Corruption Scandal'', ''Defense Modernization Pressure'',
      ''Economic Recession Warning'', ''Healthcare System Crisis''] \<and>
   map ge_category (game_events (populate_default_events ''2024-01-01 00:00:00'' five_scores)) =
     [''economy'', ''diplomacy'', ''environment'', ''politics'', ''military'', ''economy'',
      ''social''] \<and>
   map (map opt_effects \<circ> ge_options)
     (game_events (populate_default_events ''2024-01-01 00:00:00'' five_scores)) =
     map (map opt_effects \<circ> options) default_events \<and>
   map opt_effects
     (ge_options (hd (game_events (populate_default_events ''2024-01-01 00:00:00'' five_scores)))) =
     [[(''economy'', - 10), (''happiness'', 20), (''stability'', 5)],
      [(''economy'', 5), (''happiness'', - 15), (''stability'', - 10)],
      [(''economy'', - 5), (''happiness'', 10), (''stability'', 5)],
      [(''economy'', - 3), (''happiness'', 8), (''relations'', 3)]] \<and>
   map (length \<circ> ge_options)
     (game_events (populate_default_events ''2024-01-01 00:00:00'' five_scores)) =
     [4, 4, 4, 4, 4, 4, 4] \<and>
   high_scores (populate_default_events ''2024-01-01 00:00:00'' five_scores) =
     high_scores five_scores \<and>
   game_events (populate_default_events ''2024-01-01 00:00:00'' five_scores) \<noteq> [] \<and>
   populate_default_events ''2024-02-02 00:00:00''
     (populate_default_events ''2024-01-01 00:00:00'' five_scores) =
   populate_default_events ''2024-01-01 00:00:00'' five_scores \<and>
   length (game_events
     (populate_default_events ''2024-02-02 00:00:00''
       (populate_default_events ''2024-01-01 00:00:00'' empty_database))) = 7"
proof -
  let ?seeded = "populate_default_events ''2024-01-01 00:00:00'' five_scores"
  have empty: "game_events five_scores = []"
    by (simp add: five_scores_def empty_database_def)
  have seq: "game_events_seq five_scores = 0"
    by (simp add: five_scores_def empty_database_def)
  note first = populate_default_events_idempotent
    [of "''2024-02-02 00:00:00''" "''2024-01-01 00:00:00''" five_scores]
  note filled = first [THEN conjunct2, THEN conjunct2, THEN conjunct1, THEN mp, OF empty]
  from filled have seven: "length (game_events ?seeded) = 7" by (rule conjunct1)
  note table = filled [THEN conjunct2]
  have ids: "map ge_id (game_events ?seeded) = [1, 2, 3, 4, 5, 6, 7]"
    by (subst table) (simp add: seq default_events_def enumerate_eq_zip upt_rec)
  have titles: "map ge_title (game_events ?seeded) =
     [''Auto Industry Strike'', ''Border Dispute Escalation'', ''Industrial Pollution Crisis'',
      ''Government Corruption Scandal'', ''Defense Modernization Pressure'',
      ''Economic Recession Warning'', ''Healthcare System Crisis'']"
    by (subst table) (simp add: default_events_def enumerate_eq_zip upt_rec)
  have categories: "map ge_category (game_events ?seeded) =
     [''economy'', ''diplomacy'', ''environment'', ''politics'', ''military'', ''economy'',
      ''social'']"
    by (subst table) (simp add: default_events_def enumerate_eq_zip upt_rec)
  have effects: "map (map opt_effects \<circ> ge_options) (game_events ?seeded) =
     map (map opt_effects \<circ> options) default_events"
    by (subst table) (simp add: default_events_def enumerate_eq_zip upt_rec)
  have strike: "map opt_effects (ge_options (hd (game_events ?seeded))) =
     [[(''economy'', - 10), (''happiness'', 20), (''stability'', 5)],
      [(''economy'', 5), (''happiness'', - 15), (''stability'', - 10)],
      [(''economy'', - 5), (''happiness'', 10), (''stability'', 5)],
      [(''economy'', - 3), (''happiness'', 8), (''relations'', 3)]]"
    by (subst table) (simp add: default_events_def enumerate_eq_zip upt_rec)
  have four: "map (length \<circ> ge_options) (game_events ?seeded) = [4, 4, 4, 4, 4, 4, 4]"
    by (subst table) (simp add: default_events_def enumerate_eq_zip upt_rec)
  have scores: "high_scores ?seeded = high_scores five_scores"
    by (subst table) simp
  from seven have nonempty: "game_events ?seeded \<noteq> []" by auto
  note second = populate_default_events_idempotent
    [of "''2024-02-02 00:00:00''" "''2024-02-02 00:00:00''" ?seeded]
  from second [THEN conjunct2, THEN conjunct1, THEN mp, OF nonempty]
  have again: "populate_default_events ''2024-02-02 00:00:00'' ?seeded = ?seeded" .
  note twice = first [THEN conjunct2, THEN conjunct2, THEN conjunct2]
  show ?thesis
    by (intro conjI empty seven ids titles categories effects strike four scores nonempty
          again twice)
qed

section \<open>Saved sessions\<close>

text \<open>
  C8, as the code has it. For sessions \<open>A\<close> and \<open>B\<close> whose year, turn and stats fit 64
  bits, saving \<open>A\<close> and then \<open>B\<close> under one name succeeds both times and loading that
  name returns \<open>B\<close>. The table then holds one row of that name, distinct names as
  before, and the rows of all other names unchanged; scores and events are untouched.
\<close>

theorem save_game_overwrites:
  assumes "map fst (state_stats A) = stat_names"
    and "map fst (state_stats B) = stat_names"
    and "session_fits A"
    and "session_fits B"
    and "distinct (map gs_save_name (game_sessions d))"
  shows "\<exists>d1 d2. save_game now d save_name A = Inr d1 \<and>
           save_game now' d1 save_name B = Inr d2 \<and>
           load_game d2 save_name = Some B \<and>
           length (filter (\<lambda>row. gs_save_name row = save_name) (game_sessions d2)) = 1 \<and>
           distinct (map gs_save_name (game_sessions d2)) \<and>
           filter (\<lambda>row. gs_save_name row \<noteq> save_name) (game_sessions d2) =
             filter (\<lambda>row. gs_save_name row \<noteq> save_name) (game_sessions d) \<and>
           high_scores d2 = high_scores d \<and> game_events d2 = game_events d"
proof -
  from save_game_row [OF assms(1,3), of now d save_name] obtain rowA where
    d1: "save_game now d save_name A =
           Inr (d\<lparr>game_sessions :=
                   filter (\<lambda>row. gs_save_name row \<noteq> save_name) (game_sessions d) @ [rowA],
                 game_sessions_seq := game_sessions_seq d + 1\<rparr>)"
    and nameA: "gs_save_name rowA = save_name"
    by blast
  let ?d1 = "d\<lparr>game_sessions :=
                   filter (\<lambda>row. gs_save_name row \<noteq> save_name) (game_sessions d) @ [rowA],
                 game_sessions_seq := game_sessions_seq d + 1\<rparr>"
  from save_game_row [OF assms(2,4), of now' ?d1 save_name] obtain rowB where
    d2: "save_game now' ?d1 save_name B =
           Inr (?d1\<lparr>game_sessions :=
                   filter (\<lambda>row. gs_save_name row \<noteq> save_name) (game_sessions ?d1) @ [rowB],
                 game_sessions_seq := game_sessions_seq ?d1 + 1\<rparr>)"
    and rowB: "gs_save_name rowB = save_name"
      "gs_country_name rowB = state_country_name B"
      "gs_current_year rowB = state_current_year B"
      "gs_current_turn rowB = state_current_turn B"
      "state_stats B =
           [(''economy'', gs_economy rowB), (''happiness'', gs_happiness rowB),
            (''stability'', gs_stability rowB), (''relations'', gs_relations rowB),
            (''military_power'', gs_military_power rowB),
            (''environment'', gs_environment rowB)]"
    by blast
  let ?others = "filter (\<lambda>row. gs_save_name row \<noteq> save_name) (game_sessions d)"
  let ?d2 = "?d1\<lparr>game_sessions :=
                   filter (\<lambda>row. gs_save_name row \<noteq> save_name) (game_sessions ?d1) @ [rowB],
                 game_sessions_seq := game_sessions_seq ?d1 + 1\<rparr>"
  have rows: "game_sessions ?d2 = ?others @ [rowB]"
    using nameA by simp
  have "find (\<lambda>row. gs_save_name row = save_name) (?others @ [rowB]) = Some rowB"
    using find_after_replace [of "\<lambda>row. gs_save_name row = save_name" rowB "game_sessions d"] rowB(1)
    by simp
  with rows rowB have load: "load_game ?d2 save_name = Some B"
    by (simp add: load_game_def)
  have one: "length (filter (\<lambda>row. gs_save_name row = save_name) (game_sessions ?d2)) = 1"
    using rows rowB(1) by (simp add: filter_empty_conv)
  have dist: "distinct (map gs_save_name (game_sessions ?d2))"
    using rows rowB(1) assms(5) by (auto simp: distinct_map_filter)
  have kept: "filter (\<lambda>row. gs_save_name row \<noteq> save_name) (game_sessions ?d2) = ?others"
    using rows rowB(1) by simp
  have rest: "high_scores ?d2 = high_scores d" "game_events ?d2 = game_events d"
    by simp_all
  from d1 d2 load one dist kept rest show ?thesis by blast
qed

theorem save_game_overwrites_witness:
  "map fst (state_stats
     \<lparr>state_country_name = ''Utopia'', state_current_year = 2024, state_current_turn = 2,
      state_stats = [(''economy'', 45), (''happiness'', 60), (''stability'', 55),
                     (''relations'', 50), (''military_power'', 50), (''environment'', 50)]\<rparr>)
     = stat_names \<and>
   map fst (state_stats
     \<lparr>state_country_name = ''Utopia'', state_current_year = 2025, state_current_turn = 5,
      state_stats = [(''economy'', 30), (''happiness'', 75), (''stability'', 40),
                     (''relations'', 58), (''military_power'', 60), (''environment'', 35)]\<rparr>)
     = stat_names \<and>
   session_fits
     \<lparr>state_country_name = ''Utopia'', state_current_year = 2024, state_current_turn = 2,
      state_stats = [(''economy'', 45), (''happiness'', 60), (''stability'', 55),
                     (''relations'', 50), (''military_power'', 50), (''environment'', 50)]\<rparr> \<and>
   session_fits
     \<lparr>state_country_name = ''Utopia'', state_current_year = 2025, state_current_turn = 5,
      state_stats = [(''economy'', 30), (''happiness'', 75), (''stability'', 40),
                     (''relations'', 58), (''military_power'', 60), (''environment'', 35)]\<rparr> \<and>
   distinct (map gs_save_name (game_sessions beta_saved)) \<and>
   (\<exists>d1 d2.
      save_game ''2024-01-01 00:02:00'' beta_saved ''alpha''
        \<lparr>state_country_name = ''Utopia'', state_current_year = 2024, state_current_turn = 2,
         state_stats = [(''economy'', 45), (''happiness'', 60), (''stability'', 55),
                        (''relations'', 50), (''military_power'', 50), (''environment'', 50)]\<rparr>
        = Inr d1 \<and>
      save_game ''2024-01-01 00:05:00'' d1 ''alpha''
        \<lparr>state_country_name = ''Utopia'', state_current_year = 2025, state_current_turn = 5,
         state_stats = [(''economy'', 30), (''happiness'', 75), (''stability'', 40),
                        (''relations'', 58), (''military_power'', 60), (''environment'', 35)]\<rparr>
        = Inr d2 \<and>
      load_game d2 ''alpha'' =
        Some \<lparr>state_country_name = ''Utopia'', state_current_year = 2025, state_current_turn = 5,
         state_stats = [(''economy'', 30), (''happiness'', 75), (''stability'', 40),
                        (''relations'', 58), (''military_power'', 60), (''environment'', 35)]\<rparr> \<and>
      length (filter (\<lambda>row. gs_save_name row = ''alpha'') (game_sessions d2)) = 1 \<and>
      distinct (map gs_save_name (game_sessions d2)) \<and>
      filter (\<lambda>row. gs_save_name row \<noteq> ''alpha'') (game_sessions d2) =
        filter (\<lambda>row. gs_save_name row \<noteq> ''alpha'') (game_sessions beta_saved) \<and>
      high_scores d2 = high_scores beta_saved \<and> game_events d2 = game_events beta_saved) \<and>
   filter (\<lambda>row. gs_save_name row \<noteq> ''alpha'') (game_sessions beta_saved) =
     game_sessions beta_saved"
proof -
  let ?A = "\<lparr>state_country_name = ''Utopia'', state_current_year = 2024, state_current_turn = 2,
      state_stats = [(''economy'', 45), (''happiness'', 60), (''stability'', 55),
                     (''relations'', 50), (''military_power'', 50), (''environment'', 50)]\<rparr>"
  let ?B = "\<lparr>state_country_name = ''Utopia'', state_current_year = 2025, state_current_turn = 5,
      state_stats = [(''economy'', 30), (''happiness'', 75), (''stability'', 40),
                     (''relations'', 58), (''military_power'', 60), (''environment'', 35)]\<rparr>"
  have a: "map fst (state_stats ?A) = stat_names" by (simp add: stat_names_def)
  have b: "map fst (state_stats ?B) = stat_names" by (simp add: stat_names_def)
  have fa: "session_fits ?A" by (simp add: session_fits_def fits_int64_def)
  have fb: "session_fits ?B" by (simp add: session_fits_def fits_int64_def)
  have c: "distinct (map gs_save_name (game_sessions beta_saved))"
    by (simp add: beta_saved_def empty_database_def)
  have others: "filter (\<lambda>row. gs_save_name row \<noteq> ''alpha'') (game_sessions beta_saved) =
     game_sessions beta_saved"
    by (simp add: beta_saved_def empty_database_def)
  note inst = save_game_overwrites [OF a b fa fb c, of "''2024-01-01 00:02:00''" "''alpha''"
    "''2024-01-01 00:05:00''"]
  show ?thesis by (intro conjI a b fa fb c inst others)
qed

text \<open>
  C8 as stated fails: a session \<open>B\<close> whose year is \<open>2^63\<close>, saved over \<open>A\<close>, is
  refused with \<open>OverflowError\<close>; nothing is stored, and loading the name returns \<open>A\<close>.
\<close>

theorem save_game_overflow_counterexample:
  "save_game ''2024-01-01 00:02:00'' empty_database ''alpha''
     \<lparr>state_country_name = ''Utopia'', state_current_year = 2024, state_current_turn = 2,
      state_stats = [(''economy'', 45), (''happiness'', 60), (''stability'', 55),
                     (''relations'', 50), (''military_power'', 50), (''environment'', 50)]\<rparr> =
   Inr (empty_database
     \<lparr>game_sessions :=
        [\<lparr>gs_id = 1, gs_save_name = ''alpha'', gs_country_name = ''Utopia'',
          gs_current_year = 2024, gs_current_turn = 2,
          gs_economy = 45, gs_happiness = 60, gs_stability = 55,
          gs_relations = 50, gs_military_power = 50, gs_environment = 50,
          gs_created_at = ''2024-01-01 00:02:00'',
          gs_updated_at = ''2024-01-01 00:02:00''\<rparr>],
      game_sessions_seq := 1\<rparr>) \<and>
   save_game ''2024-01-01 00:05:00''
     (empty_database
       \<lparr>game_sessions :=
          [\<lparr>gs_id = 1, gs_save_name = ''alpha'', gs_country_name = ''Utopia'',
            gs_current_year = 2024, gs_current_turn = 2,
            gs_economy = 45, gs_happiness = 60, gs_stability = 55,
            gs_relations = 50, gs_military_power = 50, gs_environment = 50,
            gs_created_at = ''2024-01-01 00:02:00'',
            gs_updated_at = ''2024-01-01 00:02:00''\<rparr>],
        game_sessions_seq := 1\<rparr>)
     ''alpha''
     \<lparr>state_country_name = ''Utopia'', state_current_year = 9223372036854775808,
      state_current_turn = 5,
      state_stats = [(''economy'', 30), (''happiness'', 75), (''stability'', 40),
                     (''relations'', 58), (''military_power'', 60), (''environment'', 35)]\<rparr> =
   Inl OverflowError \<and>
   load_game
     (empty_database
       \<lparr>game_sessions :=
          [\<lparr>gs_id = 1, gs_save_name = ''alpha'', gs_country_name = ''Utopia'',
            gs_current_year = 2024, gs_current_turn = 2,
            gs_economy = 45, gs_happiness = 60, gs_stability = 55,
            gs_relations = 50, gs_military_power = 50, gs_environment = 50,
            gs_created_at = ''2024-01-01 00:02:00'',
            gs_updated_at = ''2024-01-01 00:02:00''\<rparr>],
        game_sessions_seq := 1\<rparr>)
     ''alpha'' =
   Some \<lparr>state_country_name = ''Utopia'', state_current_year = 2024, state_current_turn = 2,
      state_stats = [(''economy'', 45), (''happiness'', 60), (''stability'', 55),
                     (''relations'', 50), (''military_power'', 50), (''environment'', 50)]\<rparr>"
  by (simp add: save_game_def load_game_def and_then_def getitem_def fits_int64_def
        empty_database_def)

section \<open>The leaderboard\<close>







end
